theory Spec2Isabelle
  imports Complex_Main "HOL-Library.Word"
begin

section \<open>The Ruby side: values, classes, exceptions\<close>

text \<open>
  \<^verbatim>\<open>Window.cpp\<close> is the Ruby binding of the class \<^verbatim>\<open>sf::Window\<close>. Its functions receive
  Ruby values (\<^verbatim>\<open>VALUE\<close>), check and unwrap them with the macros of the Ruby C API, and
  call the wrapped C++ object. The model keeps the three parties apart: Ruby values and
  exceptions, C++ heap addresses, and the calls that reach the wrapped library, recorded
  in order in a trace.

  Classes are named. The five \<^verbatim>\<open>global...Class\<close> variables of the binding and the
  built-in classes the file mentions are constructors; \<open>UserClass\<close> stands for any other
  class (a subclass written in Ruby, say).
\<close>

datatype rb_class =
    rb_cObject | rb_cNilClass | rb_cTrueClass | rb_cFalseClass
  | rb_cFixnum | rb_cFloat | rb_cString | rb_cArray
  | globalWindowClass | globalVideoModeClass | globalContextSettingsClass
  | globalEventClass | globalInputClass
  | UserClass string

text \<open>
  The free function stored in a wrapped C++ pointer (\<^verbatim>\<open>RUBY_DATA_FUNC\<close>). \<open>NoFunc\<close> is the
  null function pointer, written \<^verbatim>\<open>0\<close> in the source. \<open>Event_Free_func\<close> belongs to the
  Event binding, which is a file of its own.
\<close>

datatype data_func = NoFunc | Window_Free_func | Event_Free_func

text \<open>
  A \<^verbatim>\<open>VALUE\<close> is an immediate (\<^verbatim>\<open>Qfalse\<close>, \<^verbatim>\<open>Qtrue\<close>, \<^verbatim>\<open>Qnil\<close>, a Fixnum) or a reference
  to a heap object. Heap objects carry their address first, since the code of
  \<^verbatim>\<open>Window_SetJoystickTreshold\<close> converts a \<^verbatim>\<open>VALUE\<close> to a number. None of the functions
  modelled here mutates a Ruby string or array, so their contents are kept inline. A
  string, a float or an array is a direct instance of its built-in class; the class is
  stored for the objects that can be of any class, wrapped pointers and plain objects.
  \<open>RData a klass dmark dfree ptr\<close> is the object \<^verbatim>\<open>Data_Wrap_Struct\<close> makes: a C++ pointer
  with its class and its mark and free functions. Addresses of the C++ heap are natural
  numbers and \<open>NULL\<close> is \<open>0\<close>.
\<close>

datatype VALUE =
    Qfalse | Qtrue | Qnil
  | Fixnum int
  | RString nat string
  | RFloat nat real
  | RArray nat "VALUE list"
  | RData nat rb_class data_func data_func nat
  | RObject nat rb_class

definition NULL :: nat where
  "NULL = 0"

fun CLASS_OF :: "VALUE \<Rightarrow> rb_class" where
  "CLASS_OF Qfalse = rb_cFalseClass"
| "CLASS_OF Qtrue = rb_cTrueClass"
| "CLASS_OF Qnil = rb_cNilClass"
| "CLASS_OF (Fixnum v) = rb_cFixnum"
| "CLASS_OF (RString a s) = rb_cString"
| "CLASS_OF (RFloat a d) = rb_cFloat"
| "CLASS_OF (RArray a xs) = rb_cArray"
| "CLASS_OF (RData a klass dmark dfree p) = klass"
| "CLASS_OF (RObject a klass) = klass"

text \<open>The name a class answers to \<^verbatim>\<open>to_s\<close>; the binding's classes live in the module SFML.\<close>

fun class_to_s :: "rb_class \<Rightarrow> string" where
  "class_to_s rb_cObject = ''Object''"
| "class_to_s rb_cNilClass = ''NilClass''"
| "class_to_s rb_cTrueClass = ''TrueClass''"
| "class_to_s rb_cFalseClass = ''FalseClass''"
| "class_to_s rb_cFixnum = ''Fixnum''"
| "class_to_s rb_cFloat = ''Float''"
| "class_to_s rb_cString = ''String''"
| "class_to_s rb_cArray = ''Array''"
| "class_to_s globalWindowClass = ''SFML::Window''"
| "class_to_s globalVideoModeClass = ''SFML::VideoMode''"
| "class_to_s globalContextSettingsClass = ''SFML::ContextSettings''"
| "class_to_s globalEventClass = ''SFML::Event''"
| "class_to_s globalInputClass = ''SFML::Input''"
| "class_to_s (UserClass n) = n"

text \<open>
  \<^verbatim>\<open>rb_raise( klass, format, args... )\<close> does not return: it unwinds to the interpreter.
  An exception is kept as its class, its format string as the source writes it, and the
  arguments of the format. \<open>Undefined_Behaviour\<close> is not a Ruby exception: it marks a
  path on which the C++ code dereferences a null pointer or reads past the argument
  vector, where the language promises nothing.
\<close>

datatype exc_class = rb_eArgError | rb_eTypeError | rb_eRangeError | rb_eNoMethodError

datatype fmt_arg = S string | D int

datatype error = Raise exc_class string "fmt_arg list" | Undefined_Behaviour

section \<open>The wrapped library and the state\<close>

text \<open>
  \<^verbatim>\<open>sf::Event\<close>: the event type and the payload of the union, which the binding only
  copies.
\<close>

record sf_Event =
  Type :: int
  Payload :: "nat list"

text \<open>
  One constructor per entry point of the wrapped library that \<^verbatim>\<open>Window.cpp\<close> reaches;
  the first argument of a method is the \<^verbatim>\<open>sf::Window\<close> it is called on.
  \<^verbatim>\<open>unsigned int\<close> is 32 bits wide and \<^verbatim>\<open>sf::Uint8\<close> is a byte. The object constructors carry
  the address \<^verbatim>\<open>new\<close> returned, a video mode or context settings argument is the address
  the reference is bound to, and \<open>SetIcon\<close> carries the address of the pixel buffer
  together with the bytes the library finds there.
\<close>

datatype lib_call =
    new_Window2 nat nat string
  | new_Window3 nat nat string "32 word"
  | new_Window4 nat nat string "32 word" nat
  | delete_Window nat
  | Create2 nat nat string
  | Create3 nat nat string "32 word"
  | Create4 nat nat string "32 word" nat
  | Display nat
  | EnableKeyRepeat nat bool
  | GetEvent nat
  | GetFrameTime nat
  | GetHeight nat
  | GetInput nat
  | GetSettings nat
  | GetWidth nat
  | IsOpened nat
  | SetActive nat bool
  | SetCursorPosition nat "32 word" "32 word"
  | SetFramerateLimit nat "32 word"
  | SetIcon nat "32 word" "32 word" nat "8 word list"
  | SetJoystickTreshold nat real
  | SetPosition nat "32 word" "32 word"
  | SetSize nat "32 word" "32 word"
  | SetTitle nat string
  | Show nat bool

text \<open>
  The state a binding function runs in:
  \<^item> \<open>rb_free\<close>, the address of the slot the Ruby allocator hands out next, and
    \<open>cxx_count\<close>, the number of C++ objects made so far by \<^verbatim>\<open>new\<close>: the next one gets
    the address \<open>Suc (cxx_count s)\<close>, which is not \<open>NULL\<close> (running out of memory is not
    modelled);
  \<^item> \<open>lib_calls\<close>, the calls made into the wrapped library so far, oldest first;
  \<^item> \<open>cxx_arrays\<close>, the live \<^verbatim>\<open>sf::Uint8\<close> arrays made by \<^verbatim>\<open>new[]\<close>, and \<open>cxx_events\<close>,
    the live \<^verbatim>\<open>sf::Event\<close> objects;
  \<^item> what the library answers: \<open>lib_pending w\<close> is the queue of events waiting in the
    window at \<open>w\<close>, \<open>lib_input w\<close> and \<open>lib_settings w\<close> are the addresses of the
    \<^verbatim>\<open>sf::Input\<close> and \<^verbatim>\<open>sf::ContextSettings\<close> that window owns, and \<open>lib_frame_time w\<close>,
    \<open>lib_height w\<close>, \<open>lib_width w\<close> and \<open>lib_opened w\<close> are what its getters return.
\<close>

record state =
  rb_free :: nat
  cxx_count :: nat
  lib_calls :: "lib_call list"
  cxx_arrays :: "nat \<rightharpoonup> 8 word list"
  cxx_events :: "nat \<rightharpoonup> sf_Event"
  lib_pending :: "nat \<Rightarrow> sf_Event list"
  lib_input :: "nat \<Rightarrow> nat"
  lib_settings :: "nat \<Rightarrow> nat"
  lib_frame_time :: "nat \<Rightarrow> real"
  lib_height :: "nat \<Rightarrow> 32 word"
  lib_width :: "nat \<Rightarrow> 32 word"
  lib_opened :: "nat \<Rightarrow> bool"

text \<open>
  A binding function takes the state and returns a value or an error, and the state it
  leaves. After a raise the state is the one reached at the raise: what was allocated
  before stays allocated.
\<close>

type_synonym 'a rb = "state \<Rightarrow> (error + 'a) \<times> state"

definition rb_return :: "'a \<Rightarrow> 'a rb" where
  "rb_return x = (\<lambda>s. (Inr x, s))"

definition rb_bind :: "'a rb \<Rightarrow> ('a \<Rightarrow> 'b rb) \<Rightarrow> 'b rb" where
  "rb_bind m f = (\<lambda>s. case m s of (Inl e, s') \<Rightarrow> (Inl e, s') | (Inr x, s') \<Rightarrow> f x s')"

definition rb_raise :: "exc_class \<Rightarrow> string \<Rightarrow> fmt_arg list \<Rightarrow> 'a rb" where
  "rb_raise klass fmt args = (\<lambda>s. (Inl (Raise klass fmt args), s))"

definition rb_of :: "error + 'a \<Rightarrow> 'a rb" where
  "rb_of r = (\<lambda>s. (r, s))"

definition call_lib :: "lib_call \<Rightarrow> unit rb" where
  "call_lib c = (\<lambda>s. (Inr (), s\<lparr>lib_calls := lib_calls s @ [c]\<rparr>))"

section \<open>The macros of the Ruby C API\<close>

text \<open>
  The header \<^verbatim>\<open>ruby.h\<close> is not part of the repository, and the spec has one sentence
  for what its macros do with a bad argument: wrong argument type or count, raise.
  Each macro the file uses is written out here to that sentence, with the details of
  the interpreter the binding was written for (Ruby 1.8, the one that has \<^verbatim>\<open>STR2CSTR\<close>;
  \<^verbatim>\<open>VALUE\<close> and \<^verbatim>\<open>long\<close> take 64 bits, \<^verbatim>\<open>int\<close> takes 32).
\<close>

text \<open>
  Modelled from the spec: \<^verbatim>\<open>Data_Get_Struct\<close>, a macro of \<^verbatim>\<open>ruby.h\<close>, which is not under
  src/. A wrapper is an opaque pointer to a library object:
  \<^verbatim>\<open>Data_Get_Struct( obj, type, sval )\<close> stores the pointer of \<open>obj\<close> in \<open>sval\<close>, whatever
  it points to, and a value that is no wrapper is a wrong argument type, which raises
  (\<^verbatim>\<open>Check_Type( obj, T_DATA )\<close>).
\<close>

fun Data_Get_Struct :: "VALUE \<Rightarrow> nat rb" where
  "Data_Get_Struct (RData a klass dmark dfree p) = rb_return p"
| "Data_Get_Struct obj =
     rb_raise rb_eTypeError ''wrong argument type %s (expected %s)''
       [S (class_to_s (CLASS_OF obj)), S ''Data'']"

text \<open>
  Modelled from the spec: \<^verbatim>\<open>Data_Wrap_Struct\<close>, a macro of \<^verbatim>\<open>ruby.h\<close>, which is not
  under src/. \<^verbatim>\<open>Data_Wrap_Struct( klass, mark, free, ptr )\<close> wraps the lifetime of a
  library object: it allocates the Ruby object that holds \<open>ptr\<close> and its free function.
  The allocator is modelled as handing out consecutive object slots of 40 bytes.
\<close>

definition Data_Wrap_Struct :: "rb_class \<Rightarrow> data_func \<Rightarrow> data_func \<Rightarrow> nat \<Rightarrow> VALUE rb" where
  "Data_Wrap_Struct klass dmark dfree p =
     (\<lambda>s. (Inr (RData (rb_free s) klass dmark dfree p), s\<lparr>rb_free := rb_free s + 40\<rparr>))"

text \<open>
  Modelled from the spec: \<^verbatim>\<open>rb_obj_call_init\<close>, a function of the Ruby C API, which is
  not under src/. \<^verbatim>\<open>rb_obj_call_init( obj, argc, argv )\<close> calls the method \<^verbatim>\<open>initialize\<close>
  of the new object. \<^verbatim>\<open>Init_Window\<close> defines none, and the one inherited from \<^verbatim>\<open>Object\<close>
  takes any arguments and does nothing. (An \<^verbatim>\<open>initialize\<close> written in Ruby for a
  subclass would be arbitrary code; it is not modelled.)
\<close>

definition rb_obj_call_init :: "VALUE \<Rightarrow> VALUE list \<Rightarrow> unit rb" where
  "rb_obj_call_init obj argv = rb_return ()"

text \<open>
  Modelled from the spec: \<^verbatim>\<open>STR2CSTR\<close>, a macro of \<^verbatim>\<open>ruby.h\<close>, which is not under src/.
  \<^verbatim>\<open>STR2CSTR( v )\<close> is a \<^verbatim>\<open>char *\<close> to the character data of a string; anything else is
  a wrong argument type, which raises. A Ruby string may hold NUL characters, and
  the library reads the \<^verbatim>\<open>char *\<close> as a C string: what it gets, \<open>c_string s\<close>, ends
  before the first NUL.
\<close>

definition c_string :: "string \<Rightarrow> string" where
  "c_string s = takeWhile (\<lambda>c. c \<noteq> CHR 0x00) s"

fun STR2CSTR :: "VALUE \<Rightarrow> string rb" where
  "STR2CSTR (RString a s) = rb_return (c_string s)"
| "STR2CSTR v =
     rb_raise rb_eTypeError ''can't convert %s into String'' [S (class_to_s (CLASS_OF v))]"

text \<open>
  Modelled from the spec: \<^verbatim>\<open>FIX2UINT\<close>, a macro of \<^verbatim>\<open>ruby.h\<close>, which is not under src/.
  The spec has it as type coercion and no more; the details are those of Ruby 1.8 where
  \<^verbatim>\<open>long\<close> is wider than \<^verbatim>\<open>int\<close>, as for \<^verbatim>\<open>NUM2INT\<close> below. There the macro is the function
  \<^verbatim>\<open>rb_fix2uint\<close>: a Fixnum above \<^verbatim>\<open>UINT_MAX\<close> raises RangeError, and any other Fixnum is
  converted to \<^verbatim>\<open>unsigned int\<close>, which reduces a negative one modulo \<open>2 ^ 32\<close>. A value
  that is not an integer is a wrong argument type, which raises.
\<close>

fun FIX2UINT :: "VALUE \<Rightarrow> error + 32 word" where
  "FIX2UINT (Fixnum v) =
     (if 2 ^ 32 \<le> v
      then Inl (Raise rb_eRangeError ''integer %lu too big to convert to unsigned int'' [D v])
      else Inr (word_of_int v))"
| "FIX2UINT x =
     Inl (Raise rb_eTypeError ''can't convert %s into Integer'' [S (class_to_s (CLASS_OF x))])"

text \<open>
  Modelled from the spec: \<^verbatim>\<open>INT2FIX\<close>, a macro of \<^verbatim>\<open>ruby.h\<close>, which is not under src/:
  the Fixnum of a C integer.
\<close>

definition INT2FIX :: "int \<Rightarrow> VALUE" where
  "INT2FIX i = Fixnum i"

text \<open>
  Modelled from the spec: \<^verbatim>\<open>rb_float_new\<close>, a function of the Ruby C API, which is not
  under src/. \<^verbatim>\<open>rb_float_new( d )\<close> takes a \<^verbatim>\<open>double\<close> and returns a new Float object that
  holds it.
\<close>

definition rb_float_new :: "real \<Rightarrow> VALUE rb" where
  "rb_float_new d = (\<lambda>s. (Inr (RFloat (rb_free s) d), s\<lparr>rb_free := rb_free s + 40\<rparr>))"

text \<open>
  \<^verbatim>\<open>VALIDATE_CLASS( variable, type, name )\<close>, the macro of \<^verbatim>\<open>Window.cpp\<close> itself: the class
  of the value must be exactly \<open>type\<close>.
\<close>

definition VALIDATE_CLASS :: "VALUE \<Rightarrow> rb_class \<Rightarrow> string \<Rightarrow> unit rb" where
  "VALIDATE_CLASS variable type name =
     (if CLASS_OF variable \<noteq> type
      then rb_raise rb_eTypeError ''%s argument must be instance of %s''
             [S name, S (class_to_s type)]
      else rb_return ())"

section \<open>The functions of Window.cpp\<close>

text \<open>
  The twenty functions of the file, in its order. The Ruby receiver \<open>self\<close> comes last
  in the functions that take an argument vector, as in the source.
\<close>

text \<open>\<^verbatim>\<open>Window_Free\<close>: \<^verbatim>\<open>delete anObject\<close>, which does nothing on a null pointer.\<close>

definition Window_Free :: "nat \<Rightarrow> state \<Rightarrow> state" where
  "Window_Free anObject s =
     (if anObject = NULL then s else s\<lparr>lib_calls := lib_calls s @ [delete_Window anObject]\<rparr>)"

text \<open>
  \<^verbatim>\<open>Window_Create\<close>. The \<^verbatim>\<open>switch\<close> on \<open>argc\<close> is the match on the argument vector,
  which also names \<^verbatim>\<open>args[0]\<close> to \<^verbatim>\<open>args[3]\<close>.
\<close>

fun Window_Create :: "VALUE list \<Rightarrow> VALUE \<Rightarrow> VALUE rb" where
  "Window_Create [a0, a1] self =
     rb_bind (Data_Get_Struct self) (\<lambda>object.
     rb_bind (VALIDATE_CLASS a0 globalVideoModeClass ''first'') (\<lambda>_.
     rb_bind (VALIDATE_CLASS a1 rb_cString ''second'') (\<lambda>_.
     rb_bind (Data_Get_Struct a0) (\<lambda>mode.
     rb_bind (STR2CSTR a1) (\<lambda>title.
     rb_bind (call_lib (Create2 object mode title)) (\<lambda>_.
     rb_return Qnil))))))"
| "Window_Create [a0, a1, a2] self =
     rb_bind (Data_Get_Struct self) (\<lambda>object.
     rb_bind (VALIDATE_CLASS a0 globalVideoModeClass ''first'') (\<lambda>_.
     rb_bind (VALIDATE_CLASS a1 rb_cString ''second'') (\<lambda>_.
     rb_bind (VALIDATE_CLASS a2 rb_cFixnum ''third'') (\<lambda>_.
     rb_bind (Data_Get_Struct a0) (\<lambda>mode.
     rb_bind (STR2CSTR a1) (\<lambda>title.
     rb_bind (rb_of (FIX2UINT a2)) (\<lambda>style.
     rb_bind (call_lib (Create3 object mode title style)) (\<lambda>_.
     rb_return Qnil))))))))"
| "Window_Create [a0, a1, a2, a3] self =
     rb_bind (Data_Get_Struct self) (\<lambda>object.
     rb_bind (VALIDATE_CLASS a0 globalVideoModeClass ''first'') (\<lambda>_.
     rb_bind (VALIDATE_CLASS a1 rb_cString ''second'') (\<lambda>_.
     rb_bind (VALIDATE_CLASS a2 rb_cFixnum ''third'') (\<lambda>_.
     rb_bind (VALIDATE_CLASS a3 globalContextSettingsClass ''fourth'') (\<lambda>_.
     rb_bind (Data_Get_Struct a0) (\<lambda>mode.
     rb_bind (Data_Get_Struct a3) (\<lambda>settings.
     rb_bind (STR2CSTR a1) (\<lambda>title.
     rb_bind (rb_of (FIX2UINT a2)) (\<lambda>style.
     rb_bind (call_lib (Create4 object mode title style settings)) (\<lambda>_.
     rb_return Qnil))))))))))"
| "Window_Create args self =
     rb_bind (Data_Get_Struct self) (\<lambda>object.
     rb_raise rb_eArgError ''Expected 2..4 arguments but was given %d''
       [D (int (length args))])"

definition Window_Display :: "VALUE \<Rightarrow> VALUE rb" where
  "Window_Display self =
     rb_bind (Data_Get_Struct self) (\<lambda>object.
     rb_bind (call_lib (Display object)) (\<lambda>_.
     rb_return Qnil))"

definition Window_EnableKeyRepeat :: "VALUE \<Rightarrow> VALUE \<Rightarrow> VALUE rb" where
  "Window_EnableKeyRepeat self anEnableFlag =
     rb_bind (Data_Get_Struct self) (\<lambda>object.
     if anEnableFlag = Qfalse then
       rb_bind (call_lib (EnableKeyRepeat object False)) (\<lambda>_. rb_return Qnil)
     else if anEnableFlag = Qtrue then
       rb_bind (call_lib (EnableKeyRepeat object True)) (\<lambda>_. rb_return Qnil)
     else
       rb_raise rb_eTypeError ''Expected true or false'' [])"

text \<open>
  Modelled from the spec: \<^verbatim>\<open>sf::Window::GetEvent\<close> of the wrapped library, which is not
  under src/. The library manages the event queue: the poll reports whether an event
  is pending, and when one is it hands the oldest one over in \<open>event\<close>.
\<close>

definition sf_Window_GetEvent :: "nat \<Rightarrow> sf_Event option rb" where
  "sf_Window_GetEvent window =
     (\<lambda>s. case lib_pending s window of
            [] \<Rightarrow> (Inr None, s\<lparr>lib_calls := lib_calls s @ [GetEvent window]\<rparr>)
          | event # rest \<Rightarrow>
              (Inr (Some event),
               s\<lparr>lib_calls := lib_calls s @ [GetEvent window],
                 lib_pending := (lib_pending s)(window := rest)\<rparr>))"

text \<open>
  Modelled from the spec: the class method \<^verbatim>\<open>new\<close> of \<^verbatim>\<open>SFML::Event\<close>, defined in the
  Event binding, which is not under src/. It constructs a new Event object: a fresh
  \<^verbatim>\<open>sf::Event\<close> of the given type, wrapped for Ruby with the class \<^verbatim>\<open>globalEventClass\<close>.
  \<^verbatim>\<open>Window_GetEvent\<close> below takes the method as a parameter; this is the instance it is
  run with.
\<close>

fun Event_New :: "VALUE \<Rightarrow> VALUE rb" where
  "Event_New (Fixnum t) =
     (\<lambda>s. Data_Wrap_Struct globalEventClass NoFunc Event_Free_func (Suc (cxx_count s))
            (s\<lparr>cxx_count := Suc (cxx_count s),
               cxx_events := (cxx_events s)(Suc (cxx_count s) \<mapsto> \<lparr>Type = t, Payload = []\<rparr>)\<rparr>))"
| "Event_New x =
     rb_raise rb_eTypeError ''can't convert %s into Integer'' [S (class_to_s (CLASS_OF x))]"

text \<open>
  \<^verbatim>\<open>*rubyRawEvent = event\<close>: the assignment through the pointer, which is undefined
  behaviour unless the pointer is to a live \<^verbatim>\<open>sf::Event\<close>.
\<close>

definition assign_event :: "nat \<Rightarrow> sf_Event \<Rightarrow> unit rb" where
  "assign_event p event =
     (\<lambda>s. case cxx_events s p of
            None \<Rightarrow> (Inl Undefined_Behaviour, s)
          | Some old \<Rightarrow> (Inr (), s\<lparr>cxx_events := (cxx_events s)(p \<mapsto> event)\<rparr>))"

text \<open>
  \<^verbatim>\<open>Window_GetEvent\<close>. \<^verbatim>\<open>rb_funcall( globalEventClass, rb_intern( "new" ), 1, ... )\<close> sends
  \<^verbatim>\<open>new\<close> to the Event class; the method it reaches is the parameter \<open>Event_new\<close>.
\<close>

definition Window_GetEvent :: "(VALUE \<Rightarrow> VALUE rb) \<Rightarrow> VALUE \<Rightarrow> VALUE rb" where
  "Window_GetEvent Event_new self =
     rb_bind (Data_Get_Struct self) (\<lambda>window.
     rb_bind (sf_Window_GetEvent window) (\<lambda>polled.
     case polled of
       Some event \<Rightarrow>
         rb_bind (Event_new (INT2FIX (Type event))) (\<lambda>rbObject.
         rb_bind (Data_Get_Struct rbObject) (\<lambda>rubyRawEvent.
         rb_bind (assign_event rubyRawEvent event) (\<lambda>_.
         rb_return rbObject)))
     | None \<Rightarrow> rb_return Qnil))"

text \<open>
  Modelled from the spec: the getters \<^verbatim>\<open>GetFrameTime\<close>, \<^verbatim>\<open>GetHeight\<close>, \<^verbatim>\<open>GetWidth\<close> and
  \<^verbatim>\<open>IsOpened\<close> of \<^verbatim>\<open>sf::Window\<close>, in the wrapped library, which is not under src/. Each
  is one call that answers from the state of the window.
\<close>

definition sf_Window_get :: "lib_call \<Rightarrow> (state \<Rightarrow> 'a) \<Rightarrow> 'a rb" where
  "sf_Window_get c answer = (\<lambda>s. (Inr (answer s), s\<lparr>lib_calls := lib_calls s @ [c]\<rparr>))"

definition Window_GetFrameTime :: "VALUE \<Rightarrow> VALUE rb" where
  "Window_GetFrameTime self =
     rb_bind (Data_Get_Struct self) (\<lambda>object.
     rb_bind (sf_Window_get (GetFrameTime object) (\<lambda>s. lib_frame_time s object)) (\<lambda>seconds.
     rb_float_new seconds))"

definition Window_GetHeight :: "VALUE \<Rightarrow> VALUE rb" where
  "Window_GetHeight self =
     rb_bind (Data_Get_Struct self) (\<lambda>object.
     rb_bind (sf_Window_get (GetHeight object) (\<lambda>s. lib_height s object)) (\<lambda>height.
     rb_return (INT2FIX (uint height))))"

text \<open>
  Modelled from the spec: \<^verbatim>\<open>sf::Window::GetInput\<close> and \<^verbatim>\<open>sf::Window::GetSettings\<close> of the
  wrapped library, which is not under src/. They return a reference to an object the
  window owns, of which the binding takes the address (\<^verbatim>\<open>&object->GetInput()\<close>).
\<close>

definition sf_Window_GetInput :: "nat \<Rightarrow> nat rb" where
  "sf_Window_GetInput object =
     (\<lambda>s. (Inr (lib_input s object), s\<lparr>lib_calls := lib_calls s @ [GetInput object]\<rparr>))"

definition sf_Window_GetSettings :: "nat \<Rightarrow> nat rb" where
  "sf_Window_GetSettings object =
     (\<lambda>s. (Inr (lib_settings s object), s\<lparr>lib_calls := lib_calls s @ [GetSettings object]\<rparr>))"

definition Window_GetInput :: "VALUE \<Rightarrow> VALUE rb" where
  "Window_GetInput self =
     rb_bind (Data_Get_Struct self) (\<lambda>object.
     rb_bind (sf_Window_GetInput object) (\<lambda>input.
     rb_bind (Data_Wrap_Struct globalInputClass NoFunc NoFunc input) (\<lambda>rbData.
     rb_bind (rb_obj_call_init rbData []) (\<lambda>_.
     rb_return rbData))))"

definition Window_GetSettings :: "VALUE \<Rightarrow> VALUE rb" where
  "Window_GetSettings self =
     rb_bind (Data_Get_Struct self) (\<lambda>object.
     rb_bind (sf_Window_GetSettings object) (\<lambda>settings.
     rb_bind (Data_Wrap_Struct globalContextSettingsClass NoFunc NoFunc settings) (\<lambda>rbData.
     rb_bind (rb_obj_call_init rbData []) (\<lambda>_.
     rb_return rbData))))"

definition Window_GetWidth :: "VALUE \<Rightarrow> VALUE rb" where
  "Window_GetWidth self =
     rb_bind (Data_Get_Struct self) (\<lambda>object.
     rb_bind (sf_Window_get (GetWidth object) (\<lambda>s. lib_width s object)) (\<lambda>width.
     rb_return (INT2FIX (uint width))))"

definition Window_IsOpened :: "VALUE \<Rightarrow> VALUE rb" where
  "Window_IsOpened self =
     rb_bind (Data_Get_Struct self) (\<lambda>object.
     rb_bind (sf_Window_get (IsOpened object) (\<lambda>s. lib_opened s object)) (\<lambda>opened.
     if opened = True then rb_return Qtrue else rb_return Qfalse))"

definition Window_SetActive :: "VALUE \<Rightarrow> VALUE \<Rightarrow> VALUE rb" where
  "Window_SetActive self anActiveFlag =
     rb_bind (Data_Get_Struct self) (\<lambda>object.
     if anActiveFlag = Qfalse then
       rb_bind (call_lib (SetActive object False)) (\<lambda>_. rb_return Qnil)
     else if anActiveFlag = Qtrue then
       rb_bind (call_lib (SetActive object True)) (\<lambda>_. rb_return Qnil)
     else
       rb_raise rb_eTypeError ''Expected true or false'' [])"

definition Window_SetCursorPosition :: "VALUE \<Rightarrow> VALUE \<Rightarrow> VALUE \<Rightarrow> VALUE rb" where
  "Window_SetCursorPosition self aX aY =
     rb_bind (Data_Get_Struct self) (\<lambda>object.
     rb_bind (rb_of (FIX2UINT aX)) (\<lambda>x.
     rb_bind (rb_of (FIX2UINT aY)) (\<lambda>y.
     rb_bind (call_lib (SetCursorPosition object x y)) (\<lambda>_.
     rb_return Qnil))))"

definition Window_SetFramerateLimit :: "VALUE \<Rightarrow> VALUE \<Rightarrow> VALUE rb" where
  "Window_SetFramerateLimit self aLimit =
     rb_bind (Data_Get_Struct self) (\<lambda>object.
     rb_bind (rb_of (FIX2UINT aLimit)) (\<lambda>limit.
     rb_bind (call_lib (SetFramerateLimit object limit)) (\<lambda>_.
     rb_return Qnil)))"

text \<open>
  \<^verbatim>\<open>Window_SetIcon\<close>. The pieces it needs first.

  Modelled from the spec: the method \<^verbatim>\<open>flatten\<close> of Ruby's arrays, which is not under
  src/. \<^verbatim>\<open>rb_funcall( somePixels, rb_intern("flatten"), 0 )\<close> sends \<^verbatim>\<open>flatten\<close>: an array
  answers with a new array in which every nested array is replaced by its elements,
  and a value without that method is a wrong argument type, which raises.
\<close>

fun flatten :: "VALUE \<Rightarrow> VALUE list" where
  "flatten (RArray a xs) = concat (map flatten xs)"
| "flatten v = [v]"

fun rb_funcall_flatten :: "VALUE \<Rightarrow> VALUE rb" where
  "rb_funcall_flatten (RArray a xs) =
     (\<lambda>s. (Inr (RArray (rb_free s) (flatten (RArray a xs))), s\<lparr>rb_free := rb_free s + 40\<rparr>))"
| "rb_funcall_flatten v =
     rb_raise rb_eNoMethodError ''undefined method `%s' for %s''
       [S ''flatten'', S (class_to_s (CLASS_OF v))]"

text \<open>
  Modelled from the spec: \<^verbatim>\<open>rb_ary_entry\<close>, a function of the Ruby C API, which is not
  under src/. \<^verbatim>\<open>rb_ary_entry( ary, offset )\<close> is the element at \<open>offset\<close>, or \<^verbatim>\<open>nil\<close> past
  the end of the array.
\<close>

fun rb_ary_entry :: "VALUE \<Rightarrow> nat \<Rightarrow> VALUE" where
  "rb_ary_entry (RArray a xs) offset = (if offset < length xs then xs ! offset else Qnil)"
| "rb_ary_entry v offset = Qnil"

text \<open>
  Modelled from the spec: \<^verbatim>\<open>NUM2INT\<close> and \<^verbatim>\<open>NUM2CHR\<close>, macros of \<^verbatim>\<open>ruby.h\<close>, which is not
  under src/. They are the type coercion of a number.
  \<^verbatim>\<open>NUM2INT( x )\<close>: a Fixnum is its value and a Float is truncated towards zero, both
  checked against the range of \<^verbatim>\<open>int\<close>; anything that is not a number is a wrong
  argument type, which raises.
  \<^verbatim>\<open>NUM2CHR( x )\<close>: the first byte of a string that has one, and otherwise
  \<^verbatim>\<open>(char)( NUM2INT( x ) & 0xff )\<close>, stored here in a \<^verbatim>\<open>sf::Uint8\<close>.
\<close>

definition check_int :: "int \<Rightarrow> error + int" where
  "check_int v =
     (if v < - (2 ^ 31) then Inl (Raise rb_eRangeError ''integer %ld too small to convert to int'' [D v])
      else if 2 ^ 31 \<le> v then Inl (Raise rb_eRangeError ''integer %ld too big to convert to int'' [D v])
      else Inr v)"

fun NUM2INT :: "VALUE \<Rightarrow> error + int" where
  "NUM2INT (Fixnum v) = check_int v"
| "NUM2INT (RFloat a d) = check_int (if 0 \<le> d then \<lfloor>d\<rfloor> else \<lceil>d\<rceil>)"
| "NUM2INT Qnil = Inl (Raise rb_eTypeError ''no implicit conversion from nil to integer'' [])"
| "NUM2INT x =
     Inl (Raise rb_eTypeError ''can't convert %s into Integer'' [S (class_to_s (CLASS_OF x))])"

fun NUM2CHR :: "VALUE \<Rightarrow> error + 8 word" where
  "NUM2CHR (RString a (c # cs)) = Inr (of_nat (of_char c))"
| "NUM2CHR x = (case NUM2INT x of Inl e \<Rightarrow> Inl e | Inr i \<Rightarrow> Inr (word_of_int i))"

text \<open>
  \<^verbatim>\<open>new sf::Uint8[dataSize]\<close>, \<^verbatim>\<open>tempData[index] = val\<close> and \<^verbatim>\<open>delete[] tempData\<close>. The
  bytes of a new array are indeterminate until they are written; the model starts them
  at zero. A store outside a live array is undefined behaviour.
\<close>

definition new_Uint8_array :: "nat \<Rightarrow> nat rb" where
  "new_Uint8_array n =
     (\<lambda>s. (Inr (Suc (cxx_count s)),
            s\<lparr>cxx_count := Suc (cxx_count s),
              cxx_arrays := (cxx_arrays s)(Suc (cxx_count s) \<mapsto> replicate n 0)\<rparr>))"

definition array_store :: "nat \<Rightarrow> nat \<Rightarrow> 8 word \<Rightarrow> unit rb" where
  "array_store p i v =
     (\<lambda>s. case cxx_arrays s p of
            None \<Rightarrow> (Inl Undefined_Behaviour, s)
          | Some bytes \<Rightarrow>
              if i < length bytes
              then (Inr (), s\<lparr>cxx_arrays := (cxx_arrays s)(p \<mapsto> bytes[i := v])\<rparr>)
              else (Inl Undefined_Behaviour, s))"

definition delete_array :: "nat \<Rightarrow> unit rb" where
  "delete_array p = (\<lambda>s. (Inr (), s\<lparr>cxx_arrays := (cxx_arrays s)(p := None)\<rparr>))"

text \<open>
  \<^verbatim>\<open>object->SetIcon( rawWidth, rawHeight, tempData )\<close>: the library reads the pixels
  through the pointer, so the call is recorded with the bytes the array holds then.
\<close>

definition sf_Window_SetIcon :: "nat \<Rightarrow> 32 word \<Rightarrow> 32 word \<Rightarrow> nat \<Rightarrow> unit rb" where
  "sf_Window_SetIcon object width height pixels =
     (\<lambda>s. case cxx_arrays s pixels of
            None \<Rightarrow> (Inl Undefined_Behaviour, s)
          | Some bytes \<Rightarrow> call_lib (SetIcon object width height pixels bytes) s)"

text \<open>
  The \<^verbatim>\<open>for\<close> loop of \<^verbatim>\<open>Window_SetIcon\<close>, from \<open>index\<close> on. A raise of \<^verbatim>\<open>NUM2CHR\<close> leaves
  the loop and the function.
\<close>

function SetIcon_loop :: "VALUE \<Rightarrow> nat \<Rightarrow> nat \<Rightarrow> nat \<Rightarrow> unit rb" where
  "SetIcon_loop pixels tempData dataSize index s =
     (if index < dataSize then
        (case NUM2CHR (rb_ary_entry pixels index) of
           Inl e \<Rightarrow> (Inl e, s)
         | Inr val \<Rightarrow>
             (case array_store tempData index val s of
                (Inl e, s') \<Rightarrow> (Inl e, s')
              | (Inr u, s') \<Rightarrow> SetIcon_loop pixels tempData dataSize (index + 1) s'))
      else (Inr (), s))"
  by pat_completeness auto
termination
  by (relation "measure (\<lambda>(pixels, tempData, dataSize, index, s). dataSize - index)") auto

declare SetIcon_loop.simps [simp del]

text \<open>
  \<^verbatim>\<open>rawWidth * rawHeight * 4\<close> is a product of \<^verbatim>\<open>unsigned int\<close>, computed in 32 bits and
  only then widened to the \<^verbatim>\<open>unsigned long\<close> \<open>dataSize\<close>.
\<close>

definition Window_SetIcon :: "VALUE \<Rightarrow> VALUE \<Rightarrow> VALUE \<Rightarrow> VALUE \<Rightarrow> VALUE rb" where
  "Window_SetIcon self aWidth aHeight somePixels =
     rb_bind (rb_of (FIX2UINT aWidth)) (\<lambda>rawWidth.
     rb_bind (rb_of (FIX2UINT aHeight)) (\<lambda>rawHeight.
     let dataSize = unat (rawWidth * rawHeight * 4) in
     rb_bind (new_Uint8_array dataSize) (\<lambda>tempData.
     rb_bind (rb_funcall_flatten somePixels) (\<lambda>pixels.
     rb_bind (SetIcon_loop pixels tempData dataSize 0) (\<lambda>_.
     rb_bind (Data_Get_Struct self) (\<lambda>object.
     rb_bind (sf_Window_SetIcon object rawWidth rawHeight tempData) (\<lambda>_.
     rb_bind (delete_array tempData) (\<lambda>_.
     rb_return Qnil))))))))"

text \<open>
  \<^verbatim>\<open>Window_SetJoystickTreshold\<close> passes \<^verbatim>\<open>rb_float_new( aTreshold )\<close> to the library. The
  function \<^verbatim>\<open>rb_float_new\<close> takes a \<^verbatim>\<open>double\<close> and returns the \<^verbatim>\<open>VALUE\<close> of a new Float
  object, so C++ converts twice: the \<^verbatim>\<open>VALUE\<close> \<open>aTreshold\<close>, an \<^verbatim>\<open>unsigned long\<close>, to
  \<^verbatim>\<open>double\<close>, and the \<^verbatim>\<open>VALUE\<close> that comes back to the \<^verbatim>\<open>float\<close> the library takes.

  Modelled from the spec: the type \<^verbatim>\<open>VALUE\<close> of \<^verbatim>\<open>ruby.h\<close>, which is not under src/.
  \<open>VALUE_bits\<close> is the \<^verbatim>\<open>unsigned long\<close> (64 bits)
  behind a value: 0, 2 and 4 for \<^verbatim>\<open>false\<close>, \<^verbatim>\<open>true\<close> and \<^verbatim>\<open>nil\<close>, \<open>2 v + 1\<close> for the
  Fixnum \<open>v\<close>, and the address for a heap object, which a Float always is in this
  interpreter. An integer becomes the nearest floating-point number with 24
  (\<^verbatim>\<open>float\<close>) or 53 (\<^verbatim>\<open>double\<close>) significant bits, ties to even.
\<close>

fun VALUE_bits :: "VALUE \<Rightarrow> nat" where
  "VALUE_bits Qfalse = 0"
| "VALUE_bits Qtrue = 2"
| "VALUE_bits Qnil = 4"
| "VALUE_bits (Fixnum v) = nat ((2 * v + 1) mod 2 ^ 64)"
| "VALUE_bits (RString a s) = a"
| "VALUE_bits (RFloat a d) = a"
| "VALUE_bits (RArray a xs) = a"
| "VALUE_bits (RData a klass dmark dfree p) = a"
| "VALUE_bits (RObject a klass) = a"

fun bit_length :: "nat \<Rightarrow> nat" where
  "bit_length n = (if n = 0 then 0 else Suc (bit_length (n div 2)))"

declare bit_length.simps [simp del]

definition round_to_bits :: "nat \<Rightarrow> nat \<Rightarrow> nat" where
  "round_to_bits p n =
     (if n < 2 ^ p then n
      else
        let e = bit_length n - p; q = n div 2 ^ e; r = n mod 2 ^ e
        in (if 2 ^ e < 2 * r \<or> (2 * r = 2 ^ e \<and> q mod 2 = 1) then q + 1 else q) * 2 ^ e)"

definition ulong_to_float :: "nat \<Rightarrow> real" where
  "ulong_to_float n = real (round_to_bits 24 n)"

definition ulong_to_double :: "nat \<Rightarrow> real" where
  "ulong_to_double n = real (round_to_bits 53 n)"

definition Window_SetJoystickTreshold :: "VALUE \<Rightarrow> VALUE \<Rightarrow> VALUE rb" where
  "Window_SetJoystickTreshold self aTreshold =
     rb_bind (Data_Get_Struct self) (\<lambda>object.
     rb_bind (rb_float_new (ulong_to_double (VALUE_bits aTreshold))) (\<lambda>boxed.
     rb_bind (call_lib (SetJoystickTreshold object (ulong_to_float (VALUE_bits boxed)))) (\<lambda>_.
     rb_return Qnil)))"

definition Window_SetPosition :: "VALUE \<Rightarrow> VALUE \<Rightarrow> VALUE \<Rightarrow> VALUE rb" where
  "Window_SetPosition self aX aY =
     rb_bind (Data_Get_Struct self) (\<lambda>object.
     rb_bind (rb_of (FIX2UINT aX)) (\<lambda>x.
     rb_bind (rb_of (FIX2UINT aY)) (\<lambda>y.
     rb_bind (call_lib (SetPosition object x y)) (\<lambda>_.
     rb_return Qnil))))"

definition Window_SetSize :: "VALUE \<Rightarrow> VALUE \<Rightarrow> VALUE \<Rightarrow> VALUE rb" where
  "Window_SetSize self aWidth aHeight =
     rb_bind (Data_Get_Struct self) (\<lambda>object.
     rb_bind (rb_of (FIX2UINT aWidth)) (\<lambda>width.
     rb_bind (rb_of (FIX2UINT aHeight)) (\<lambda>height.
     rb_bind (call_lib (SetSize object width height)) (\<lambda>_.
     rb_return Qnil))))"

definition Window_SetTitle :: "VALUE \<Rightarrow> VALUE \<Rightarrow> VALUE rb" where
  "Window_SetTitle self aTitle =
     rb_bind (Data_Get_Struct self) (\<lambda>object.
     rb_bind (STR2CSTR aTitle) (\<lambda>title.
     rb_bind (call_lib (SetTitle object title)) (\<lambda>_.
     rb_return Qnil)))"

definition Window_Show :: "VALUE \<Rightarrow> VALUE \<Rightarrow> VALUE rb" where
  "Window_Show self aShowFlag =
     rb_bind (Data_Get_Struct self) (\<lambda>object.
     if aShowFlag = Qfalse then
       rb_bind (call_lib (Show object False)) (\<lambda>_. rb_return Qnil)
     else if aShowFlag = Qtrue then
       rb_bind (call_lib (Show object True)) (\<lambda>_. rb_return Qnil)
     else
       rb_raise rb_eTypeError ''Expected true or false'' [])"

text \<open>
  \<^verbatim>\<open>Window_New\<close>. \<^verbatim>\<open>new sf::Window( ... )\<close> is a call of the library's constructor, recorded
  with the address of the new object. In \<^verbatim>\<open>case 0\<close> the source writes
  \<^verbatim>\<open>new sf::Window( *mode , STR2CSTR( args[1] ) )\<close> with \<open>mode\<close> still \<open>NULL\<close> and an empty
  argument vector: \<open>deref\<close> and \<open>args_at\<close> are the two reads.
\<close>

definition deref :: "nat \<Rightarrow> nat rb" where
  "deref p = (if p = NULL then rb_of (Inl Undefined_Behaviour) else rb_return p)"

definition args_at :: "VALUE list \<Rightarrow> nat \<Rightarrow> VALUE rb" where
  "args_at args i = (if i < length args then rb_return (args ! i) else rb_of (Inl Undefined_Behaviour))"

definition new_Window :: "(nat \<Rightarrow> lib_call) \<Rightarrow> nat rb" where
  "new_Window ctor =
     (\<lambda>s. (Inr (Suc (cxx_count s)),
            s\<lparr>cxx_count := Suc (cxx_count s),
              lib_calls := lib_calls s @ [ctor (Suc (cxx_count s))]\<rparr>))"

definition wrap_Window :: "rb_class \<Rightarrow> nat \<Rightarrow> VALUE rb" where
  "wrap_Window aKlass object =
     rb_bind (Data_Wrap_Struct aKlass NoFunc Window_Free_func object) (\<lambda>rbData.
     rb_bind (rb_obj_call_init rbData []) (\<lambda>_.
     rb_return rbData))"

fun Window_New :: "VALUE list \<Rightarrow> rb_class \<Rightarrow> VALUE rb" where
  "Window_New [] aKlass =
     rb_bind (deref NULL) (\<lambda>mode.
     rb_bind (args_at [] 1) (\<lambda>a1.
     rb_bind (STR2CSTR a1) (\<lambda>title.
     rb_bind (new_Window (\<lambda>p. new_Window2 p mode title)) (\<lambda>object.
     wrap_Window aKlass object))))"
| "Window_New [a0, a1] aKlass =
     rb_bind (VALIDATE_CLASS a0 globalVideoModeClass ''first'') (\<lambda>_.
     rb_bind (VALIDATE_CLASS a1 rb_cString ''second'') (\<lambda>_.
     rb_bind (Data_Get_Struct a0) (\<lambda>mode.
     rb_bind (STR2CSTR a1) (\<lambda>title.
     rb_bind (new_Window (\<lambda>p. new_Window2 p mode title)) (\<lambda>object.
     wrap_Window aKlass object)))))"
| "Window_New [a0, a1, a2] aKlass =
     rb_bind (VALIDATE_CLASS a0 globalVideoModeClass ''first'') (\<lambda>_.
     rb_bind (VALIDATE_CLASS a1 rb_cString ''second'') (\<lambda>_.
     rb_bind (VALIDATE_CLASS a2 rb_cFixnum ''third'') (\<lambda>_.
     rb_bind (Data_Get_Struct a0) (\<lambda>mode.
     rb_bind (STR2CSTR a1) (\<lambda>title.
     rb_bind (rb_of (FIX2UINT a2)) (\<lambda>style.
     rb_bind (new_Window (\<lambda>p. new_Window3 p mode title style)) (\<lambda>object.
     wrap_Window aKlass object)))))))"
| "Window_New [a0, a1, a2, a3] aKlass =
     rb_bind (VALIDATE_CLASS a0 globalVideoModeClass ''first'') (\<lambda>_.
     rb_bind (VALIDATE_CLASS a1 rb_cString ''second'') (\<lambda>_.
     rb_bind (VALIDATE_CLASS a2 rb_cFixnum ''third'') (\<lambda>_.
     rb_bind (VALIDATE_CLASS a3 globalContextSettingsClass ''fourth'') (\<lambda>_.
     rb_bind (Data_Get_Struct a0) (\<lambda>mode.
     rb_bind (Data_Get_Struct a3) (\<lambda>settings.
     rb_bind (STR2CSTR a1) (\<lambda>title.
     rb_bind (rb_of (FIX2UINT a2)) (\<lambda>style.
     rb_bind (new_Window (\<lambda>p. new_Window4 p mode title style settings)) (\<lambda>object.
     wrap_Window aKlass object)))))))))"
| "Window_New args aKlass =
     rb_raise rb_eArgError ''Expected 2..4 arguments but was given %d''
       [D (int (length args))]"

text \<open>
  Modelled from the spec: the finalisation of a wrapper by Ruby's garbage collector,
  which is not under src/. It is the free half of an allocate/free pair: for a wrapped
  pointer that is not null and has a free function, the collector calls that function
  on the pointer; with no free function it leaves the pointer alone.
\<close>

fun obj_free :: "VALUE \<Rightarrow> state \<Rightarrow> state" where
  "obj_free (RData a klass dmark dfree p) s =
     (if p = NULL then s
      else case dfree of
             NoFunc \<Rightarrow> s
           | Window_Free_func \<Rightarrow> Window_Free p s
           | Event_Free_func \<Rightarrow> s\<lparr>cxx_events := (cxx_events s)(p := None)\<rparr>)"
| "obj_free v s = s"

section \<open>Module initialisation\<close>

text \<open>
  The functions \<^verbatim>\<open>Window.cpp\<close> defines, as the function pointers that can be registered
  as methods.
\<close>

datatype cfunc =
    Window_Create_fn | Window_Display_fn | Window_EnableKeyRepeat_fn | Window_GetEvent_fn
  | Window_GetFrameTime_fn | Window_GetHeight_fn | Window_GetInput_fn | Window_GetSettings_fn
  | Window_GetWidth_fn | Window_IsOpened_fn | Window_SetActive_fn
  | Window_SetCursorPosition_fn | Window_SetFramerateLimit_fn | Window_SetIcon_fn
  | Window_SetJoystickTreshold_fn | Window_SetPosition_fn | Window_SetSize_fn
  | Window_SetTitle_fn | Window_Show_fn | Window_New_fn

text \<open>
  Modelled from the spec: \<^verbatim>\<open>rb_define_class_under\<close>, \<^verbatim>\<open>rb_define_singleton_method\<close> and
  \<^verbatim>\<open>rb_define_method\<close> of the Ruby C API and \<^verbatim>\<open>GetNamespace\<close> of \<^verbatim>\<open>main.hpp\<close>, which are
  not under src/. They fill the interpreter's tables: the classes defined (module,
  name, superclass), and the singleton and instance methods registered (class, name,
  function, arity); a method is invocable from Ruby when it is in them.
\<close>

record rb_vm =
  vm_classes :: "(string \<times> string \<times> rb_class) list"
  vm_singleton_methods :: "(rb_class \<times> string \<times> cfunc \<times> int) list"
  vm_methods :: "(rb_class \<times> string \<times> cfunc \<times> int) list"

definition GetNamespace :: string where
  "GetNamespace = ''SFML''"

definition rb_define_class_under :: "string \<Rightarrow> string \<Rightarrow> rb_class \<Rightarrow> rb_vm \<Rightarrow> rb_vm" where
  "rb_define_class_under outer name super vm =
     vm\<lparr>vm_classes := vm_classes vm @ [(outer, name, super)]\<rparr>"

definition rb_define_singleton_method ::
  "rb_class \<Rightarrow> string \<Rightarrow> cfunc \<Rightarrow> int \<Rightarrow> rb_vm \<Rightarrow> rb_vm" where
  "rb_define_singleton_method klass name func argc vm =
     vm\<lparr>vm_singleton_methods := vm_singleton_methods vm @ [(klass, name, func, argc)]\<rparr>"

definition rb_define_method :: "rb_class \<Rightarrow> string \<Rightarrow> cfunc \<Rightarrow> int \<Rightarrow> rb_vm \<Rightarrow> rb_vm" where
  "rb_define_method klass name func argc vm =
     vm\<lparr>vm_methods := vm_methods vm @ [(klass, name, func, argc)]\<rparr>"

text \<open>
  \<^verbatim>\<open>Init_Window\<close>: the class \<^verbatim>\<open>SFML::Window\<close> and its class method \<^verbatim>\<open>new\<close>. Under the
  comments "Instance methods" and "Aliases" the source has no statement.
\<close>

definition Init_Window :: "rb_vm \<Rightarrow> rb_vm" where
  "Init_Window vm =
     rb_define_singleton_method globalWindowClass ''new'' Window_New_fn (- 1)
       (rb_define_class_under GetNamespace ''Window'' rb_cObject vm)"

text \<open>
  A method call \<open>receiver.name\<close> on an instance of \<open>klass\<close> finds the function registered
  for the class under that name, if there is one.
\<close>

definition instance_method :: "rb_vm \<Rightarrow> rb_class \<Rightarrow> string \<Rightarrow> cfunc option" where
  "instance_method vm klass name =
     map_option (\<lambda>(k, n, f, argc). f) (find (\<lambda>(k, n, f, argc). k = klass \<and> n = name) (vm_methods vm))"

section \<open>Concrete inputs\<close>

text \<open>
  A window made earlier by \<^verbatim>\<open>SFML::Window.new\<close>, a video mode, context settings and a
  title, and a state in which no library call has been recorded yet. One event, of
  type 4, waits in the window, which is open and 800 by 600.
\<close>

definition win0 :: VALUE where
  "win0 = RData 4096 globalWindowClass NoFunc Window_Free_func 1"

definition mode0 :: VALUE where
  "mode0 = RData 4136 globalVideoModeClass NoFunc NoFunc 2"

definition settings0 :: VALUE where
  "settings0 = RData 4176 globalContextSettingsClass NoFunc NoFunc 3"

definition title0 :: VALUE where
  "title0 = RString 4216 ''SFML window''"

definition event0 :: sf_Event where
  "event0 = \<lparr>Type = 4, Payload = [27, 0, 0, 0]\<rparr>"

definition s0 :: state where
  "s0 = \<lparr>rb_free = 8192, cxx_count = 3, lib_calls = [],
          cxx_arrays = Map.empty, cxx_events = Map.empty,
          lib_pending = (\<lambda>w. if w = 1 then [event0] else []),
          lib_input = (\<lambda>w. 1000 + w), lib_settings = (\<lambda>w. 2000 + w),
          lib_frame_time = (\<lambda>w. 1 / 64), lib_height = (\<lambda>w. 600), lib_width = (\<lambda>w. 800),
          lib_opened = (\<lambda>w. True)\<rparr>"

definition vm0 :: rb_vm where
  "vm0 = \<lparr>vm_classes = [], vm_singleton_methods = [], vm_methods = []\<rparr>"

text \<open>
  The classes \<^verbatim>\<open>Window_Create\<close> and \<^verbatim>\<open>Window_New\<close> require of their arguments, by
  position, and the word the error message uses for each position.
\<close>

definition required_class :: "rb_class list" where
  "required_class = [globalVideoModeClass, rb_cString, rb_cFixnum, globalContextSettingsClass]"

definition position_name :: "string list" where
  "position_name = [''first'', ''second'', ''third'', ''fourth'']"

text \<open>The address of the object a constructor call of the library made.\<close>

fun constructed :: "lib_call \<Rightarrow> nat option" where
  "constructed (new_Window2 p mode title) = Some p"
| "constructed (new_Window3 p mode title style) = Some p"
| "constructed (new_Window4 p mode title style settings) = Some p"
| "constructed c = None"

text \<open>
  Two shorthands for the proofs. \<open>create_fails args self s j\<close>: position \<open>j\<close> is the
  first argument of the wrong class and \<^verbatim>\<open>Window_Create\<close> raises the TypeError that names
  it, in the state it started from. \<open>new_result aKlass s v s'\<close>: \<open>v\<close> wraps the one
  window constructed between \<open>s\<close> and \<open>s'\<close> with \<^verbatim>\<open>Window_Free\<close>, and collecting \<open>v\<close>
  deletes that window once.
\<close>

definition create_fails :: "VALUE list \<Rightarrow> VALUE \<Rightarrow> state \<Rightarrow> nat \<Rightarrow> bool" where
  "create_fails args self s j \<longleftrightarrow>
     j < length args \<and> CLASS_OF (args ! j) \<noteq> required_class ! j
     \<and> (\<forall>i<j. CLASS_OF (args ! i) = required_class ! i)
     \<and> Window_Create args self s
         = (Inl (Raise rb_eTypeError ''%s argument must be instance of %s''
                   [S (position_name ! j), S (class_to_s (required_class ! j))]), s)"

definition new_result :: "rb_class \<Rightarrow> state \<Rightarrow> VALUE \<Rightarrow> state \<Rightarrow> bool" where
  "new_result aKlass s v s' \<longleftrightarrow>
     (\<exists>c. v = RData (rb_free s) aKlass NoFunc Window_Free_func (Suc (cxx_count s))
        \<and> constructed c = Some (Suc (cxx_count s))
        \<and> lib_calls s' = lib_calls s @ [c]
        \<and> lib_calls (obj_free v s') = lib_calls s @ [c, delete_Window (Suc (cxx_count s))])"

text \<open>The array of pixels used below: a nested array of four byte values.\<close>

definition pixels0 :: VALUE where
  "pixels0 = RArray 4256 [Fixnum 255, RArray 4296 [Fixnum 0, Fixnum 128], Fixnum 255]"

section \<open>Results\<close>

lemmas rb_defs = rb_return_def rb_bind_def rb_raise_def rb_of_def call_lib_def

lemmas create_defs =
  create_fails_def required_class_def position_name_def VALIDATE_CLASS_def rb_defs

subsection \<open>Steps that succeed, steps that raise\<close>

lemma rb_bind_Inr:
  "rb_bind m f s = (Inr v, s') \<longleftrightarrow> (\<exists>x s1. m s = (Inr x, s1) \<and> f x s1 = (Inr v, s'))"
  by (auto simp: rb_bind_def split: prod.splits sum.splits)

lemma rb_bind_Inl:
  "rb_bind m f s = (Inl e, s') \<longleftrightarrow>
     m s = (Inl e, s') \<or> (\<exists>x s1. m s = (Inr x, s1) \<and> f x s1 = (Inl e, s'))"
  by (auto simp: rb_bind_def split: prod.splits sum.splits)

text \<open>The checks and conversions leave the state alone, whether they raise or not.\<close>

lemma VALIDATE_CLASS_state: "VALIDATE_CLASS x t n s = (r, s1) \<Longrightarrow> s1 = s"
  by (auto simp add: VALIDATE_CLASS_def rb_defs split: if_splits)

lemma Data_Get_Struct_state: "Data_Get_Struct x s = (r, s1) \<Longrightarrow> s1 = s"
  by (cases x) (auto simp add: rb_defs)

lemma STR2CSTR_state: "STR2CSTR x s = (r, s1) \<Longrightarrow> s1 = s"
  by (cases x) (auto simp add: rb_defs)

lemma rb_of_state: "rb_of r s = (r', s1) \<Longrightarrow> s1 = s"
  by (auto simp add: rb_of_def)

lemmas pure_steps = VALIDATE_CLASS_state Data_Get_Struct_state STR2CSTR_state rb_of_state

lemma length2: "length xs = 2 \<Longrightarrow> \<exists>a b. xs = [a, b]"
  by (cases xs; cases "tl xs") auto

lemma length3: "length xs = 3 \<Longrightarrow> \<exists>a b c. xs = [a, b, c]"
  by (cases xs; cases "tl xs"; cases "tl (tl xs)") auto

lemma length4: "length xs = 4 \<Longrightarrow> \<exists>a b c d. xs = [a, b, c, d]"
  by (cases xs; cases "tl xs"; cases "tl (tl xs)"; cases "tl (tl (tl xs))") auto

subsection \<open>Argument counts\<close>

text \<open>
  \<^verbatim>\<open>Window_Create\<close> raises ArgError for every count other than 2, 3 and 4, and so does
  \<^verbatim>\<open>Window_New\<close> for every count other than 0, 2, 3 and 4; neither reaches the library.
\<close>

lemma Window_Create_wrong_count:
  "length args \<notin> {2, 3, 4} \<Longrightarrow>
   Window_Create args (RData a klass dmark dfree w) s
     = (Inl (Raise rb_eArgError ''Expected 2..4 arguments but was given %d''
               [D (int (length args))]), s)"
  by (cases "(args, RData a klass dmark dfree w)" rule: Window_Create.cases)
     (simp_all add: rb_defs)

lemma Window_New_wrong_count:
  "length args \<notin> {0, 2, 3, 4} \<Longrightarrow>
   Window_New args aKlass s
     = (Inl (Raise rb_eArgError ''Expected 2..4 arguments but was given %d''
               [D (int (length args))]), s)"
  by (cases "(args, aKlass)" rule: Window_New.cases) (simp_all add: rb_defs)

text \<open>
  C1. The claim: with a count other than 2, 3 or 4 the constructor raises ArgError.
  With no argument at all \<^verbatim>\<open>Window_New\<close> does not: \<^verbatim>\<open>case 0\<close> dereferences the null
  \<open>mode\<close> and reads \<^verbatim>\<open>args[1]\<close> of an empty vector, which is undefined behaviour and
  no ArgError.
\<close>

theorem C1_Window_New_without_arguments:
  "Window_New [] aKlass s = (Inl Undefined_Behaviour, s)
   \<and> Window_New [] aKlass s
       \<noteq> (Inl (Raise rb_eArgError ''Expected 2..4 arguments but was given %d'' [D 0]), s)"
  by (simp add: deref_def rb_defs NULL_def)

subsection \<open>Registration\<close>

text \<open>
  C2. The claim: module initialisation registers a method for each forwarded
  operation. \<^verbatim>\<open>Init_Window\<close> registers the class method \<^verbatim>\<open>new\<close> and nothing else: the
  table of instance methods is the one it was given, so after initialisation of an
  empty interpreter no name at all is an instance method of the Window class.
\<close>

theorem C2_Init_Window_registers_new_only:
  "vm_methods (Init_Window vm) = vm_methods vm
   \<and> vm_singleton_methods (Init_Window vm)
       = vm_singleton_methods vm @ [(globalWindowClass, ''new'', Window_New_fn, - 1)]
   \<and> instance_method (Init_Window vm0) globalWindowClass name = None"
  by (simp add: Init_Window_def rb_define_singleton_method_def rb_define_class_under_def
      instance_method_def vm0_def)

subsection \<open>Forwarding\<close>

text \<open>
  Whatever the argument of \<^verbatim>\<open>Window_SetJoystickTreshold\<close> is, the threshold the library
  gets is the address of the Float object just allocated, converted to \<^verbatim>\<open>float\<close>.
\<close>

lemma SetJoystickTreshold_forwards_address:
  "Window_SetJoystickTreshold (RData a klass dmark dfree w) t s
     = (Inr Qnil,
        s\<lparr>rb_free := rb_free s + 40,
          lib_calls := lib_calls s @ [SetJoystickTreshold w (ulong_to_float (rb_free s))]\<rparr>)"
  by (simp add: Window_SetJoystickTreshold_def rb_float_new_def rb_defs)

text \<open>
  C3. The claim: setJoystickThreshold passes the numeric value of its argument to the
  library. Called with the number 1 in a state whose next free object slot is at
  8192, it passes 8192.
\<close>

theorem C3_SetJoystickTreshold_of_1:
  "lib_calls (snd (Window_SetJoystickTreshold win0 (Fixnum 1) s0)) = [SetJoystickTreshold 1 8192]
   \<and> SetJoystickTreshold 1 8192 \<noteq> SetJoystickTreshold 1 1"
  by (simp add: Window_SetJoystickTreshold_def rb_float_new_def rb_defs win0_def s0_def
      ulong_to_float_def round_to_bits_def)

subsection \<open>Flags\<close>

text \<open>
  C4. enableKeyRepeat, setActive and show, called on a Ruby object that wraps the
  window \<open>w\<close>: the argument \<open>true\<close> makes exactly one call of the library method with
  \<open>true\<close>, the argument \<open>false\<close> one call with \<open>false\<close>, and every other argument raises
  TypeError with the message "Expected true or false" and leaves the state, hence the
  trace of library calls, as it was.
\<close>

theorem C4_boolean_flags:
  "Window_EnableKeyRepeat (RData a klass dmark dfree w) Qtrue s
     = (Inr Qnil, s\<lparr>lib_calls := lib_calls s @ [EnableKeyRepeat w True]\<rparr>)
   \<and> Window_EnableKeyRepeat (RData a klass dmark dfree w) Qfalse s
     = (Inr Qnil, s\<lparr>lib_calls := lib_calls s @ [EnableKeyRepeat w False]\<rparr>)
   \<and> Window_SetActive (RData a klass dmark dfree w) Qtrue s
     = (Inr Qnil, s\<lparr>lib_calls := lib_calls s @ [SetActive w True]\<rparr>)
   \<and> Window_SetActive (RData a klass dmark dfree w) Qfalse s
     = (Inr Qnil, s\<lparr>lib_calls := lib_calls s @ [SetActive w False]\<rparr>)
   \<and> Window_Show (RData a klass dmark dfree w) Qtrue s
     = (Inr Qnil, s\<lparr>lib_calls := lib_calls s @ [Show w True]\<rparr>)
   \<and> Window_Show (RData a klass dmark dfree w) Qfalse s
     = (Inr Qnil, s\<lparr>lib_calls := lib_calls s @ [Show w False]\<rparr>)
   \<and> (v \<noteq> Qtrue \<and> v \<noteq> Qfalse \<longrightarrow>
        Window_EnableKeyRepeat (RData a klass dmark dfree w) v s
          = (Inl (Raise rb_eTypeError ''Expected true or false'' []), s)
      \<and> Window_SetActive (RData a klass dmark dfree w) v s
          = (Inl (Raise rb_eTypeError ''Expected true or false'' []), s)
      \<and> Window_Show (RData a klass dmark dfree w) v s
          = (Inl (Raise rb_eTypeError ''Expected true or false'' []), s))"
  by (simp add: Window_EnableKeyRepeat_def Window_SetActive_def Window_Show_def rb_defs)

theorem C4_boolean_flags_witness:
  "Qnil \<noteq> Qtrue \<and> Qnil \<noteq> Qfalse
   \<and> Window_EnableKeyRepeat win0 Qnil s0 = (Inl (Raise rb_eTypeError ''Expected true or false'' []), s0)
   \<and> Window_SetActive win0 Qnil s0 = (Inl (Raise rb_eTypeError ''Expected true or false'' []), s0)
   \<and> Window_Show win0 Qnil s0 = (Inl (Raise rb_eTypeError ''Expected true or false'' []), s0)
   \<and> lib_calls (snd (Window_Show win0 Qtrue s0)) = [Show 1 True]"
  using C4_boolean_flags [of 4096 globalWindowClass NoFunc Window_Free_func 1 s0 Qnil]
  by (simp add: win0_def s0_def)

subsection \<open>Create: argument classes\<close>

lemma Create_2_fails:
  assumes "\<exists>i<length [a0, a1]. CLASS_OF ([a0, a1] ! i) \<noteq> required_class ! i"
  shows "\<exists>j. create_fails [a0, a1] (RData a klass dmark dfree w) s j"
proof -
  have "CLASS_OF a0 \<noteq> globalVideoModeClass \<or> CLASS_OF a1 \<noteq> rb_cString"
    using assms by (auto simp: less_Suc_eq required_class_def)
  then consider "CLASS_OF a0 \<noteq> globalVideoModeClass"
    | "CLASS_OF a0 = globalVideoModeClass" "CLASS_OF a1 \<noteq> rb_cString"
    by blast
  then show ?thesis
  proof cases
    case 1
    then have "create_fails [a0, a1] (RData a klass dmark dfree w) s 0"
      by (simp add: create_defs)
    then show ?thesis ..
  next
    case 2
    then have "create_fails [a0, a1] (RData a klass dmark dfree w) s 1"
      by (simp add: create_defs)
    then show ?thesis ..
  qed
qed

lemma Create_3_fails:
  assumes "\<exists>i<length [a0, a1, a2]. CLASS_OF ([a0, a1, a2] ! i) \<noteq> required_class ! i"
  shows "\<exists>j. create_fails [a0, a1, a2] (RData a klass dmark dfree w) s j"
proof -
  have "CLASS_OF a0 \<noteq> globalVideoModeClass \<or> CLASS_OF a1 \<noteq> rb_cString
      \<or> CLASS_OF a2 \<noteq> rb_cFixnum"
    using assms by (auto simp: less_Suc_eq required_class_def)
  then consider "CLASS_OF a0 \<noteq> globalVideoModeClass"
    | "CLASS_OF a0 = globalVideoModeClass" "CLASS_OF a1 \<noteq> rb_cString"
    | "CLASS_OF a0 = globalVideoModeClass" "CLASS_OF a1 = rb_cString"
      "CLASS_OF a2 \<noteq> rb_cFixnum"
    by blast
  then show ?thesis
  proof cases
    case 1
    then have "create_fails [a0, a1, a2] (RData a klass dmark dfree w) s 0"
      by (simp add: create_defs)
    then show ?thesis ..
  next
    case 2
    then have "create_fails [a0, a1, a2] (RData a klass dmark dfree w) s 1"
      by (simp add: create_defs)
    then show ?thesis ..
  next
    case 3
    then have "create_fails [a0, a1, a2] (RData a klass dmark dfree w) s 2"
      by (simp add: create_defs less_Suc_eq numeral_2_eq_2)
    then show ?thesis ..
  qed
qed

lemma Create_4_fails:
  assumes "\<exists>i<length [a0, a1, a2, a3]. CLASS_OF ([a0, a1, a2, a3] ! i) \<noteq> required_class ! i"
  shows "\<exists>j. create_fails [a0, a1, a2, a3] (RData a klass dmark dfree w) s j"
proof -
  have bad: "CLASS_OF a0 \<noteq> globalVideoModeClass \<or> CLASS_OF a1 \<noteq> rb_cString
      \<or> CLASS_OF a2 \<noteq> rb_cFixnum \<or> CLASS_OF a3 \<noteq> globalContextSettingsClass"
    using assms by (auto simp: less_Suc_eq required_class_def)
  consider "CLASS_OF a0 \<noteq> globalVideoModeClass"
    | "CLASS_OF a0 = globalVideoModeClass" "CLASS_OF a1 \<noteq> rb_cString"
    | "CLASS_OF a0 = globalVideoModeClass" "CLASS_OF a1 = rb_cString"
      "CLASS_OF a2 \<noteq> rb_cFixnum"
    | "CLASS_OF a0 = globalVideoModeClass" "CLASS_OF a1 = rb_cString"
      "CLASS_OF a2 = rb_cFixnum" "CLASS_OF a3 \<noteq> globalContextSettingsClass"
    using bad by blast
  then show ?thesis
  proof cases
    case 1
    then have "create_fails [a0, a1, a2, a3] (RData a klass dmark dfree w) s 0"
      by (simp add: create_defs)
    then show ?thesis ..
  next
    case 2
    then have "create_fails [a0, a1, a2, a3] (RData a klass dmark dfree w) s 1"
      by (simp add: create_defs)
    then show ?thesis ..
  next
    case 3
    then have "create_fails [a0, a1, a2, a3] (RData a klass dmark dfree w) s 2"
      by (simp add: create_defs less_Suc_eq numeral_2_eq_2)
    then show ?thesis ..
  next
    case 4
    then have "create_fails [a0, a1, a2, a3] (RData a klass dmark dfree w) s 3"
      by (simp add: create_defs less_Suc_eq numeral_3_eq_3)
    then show ?thesis ..
  qed
qed

text \<open>
  When every argument has the class its position requires, \<^verbatim>\<open>Window_Create\<close> makes one
  call of the library's Create with the unwrapped values.
\<close>

lemma Window_Create_forwards:
  "Window_Create [RData am globalVideoModeClass dm df mode, RString ast title]
       (RData a klass dmark dfree w) s
     = (Inr Qnil, s\<lparr>lib_calls := lib_calls s @ [Create2 w mode (c_string title)]\<rparr>)"
  "style < 2 ^ 32 \<Longrightarrow>
   Window_Create [RData am globalVideoModeClass dm df mode, RString ast title, Fixnum style]
       (RData a klass dmark dfree w) s
     = (Inr Qnil,
        s\<lparr>lib_calls := lib_calls s @ [Create3 w mode (c_string title) (word_of_int style)]\<rparr>)"
  "style < 2 ^ 32 \<Longrightarrow>
   Window_Create [RData am globalVideoModeClass dm df mode, RString ast title, Fixnum style,
                  RData ac globalContextSettingsClass dm' df' settings]
       (RData a klass dmark dfree w) s
     = (Inr Qnil,
        s\<lparr>lib_calls := lib_calls s
            @ [Create4 w mode (c_string title) (word_of_int style) settings]\<rparr>)"
  by (simp_all add: VALIDATE_CLASS_def rb_defs)

text \<open>The title the library gets ends before the first NUL of the Ruby string.\<close>

lemma Window_Create_title_is_a_C_string:
  "Window_Create [mode0, RString 4216 [CHR ''a'', CHR ''b'', CHR 0x00, CHR ''c'', CHR ''d'']] win0 s0
     = (Inr Qnil, s0\<lparr>lib_calls := [Create2 1 2 ''ab'']\<rparr>)"
  by (simp add: win0_def mode0_def s0_def VALIDATE_CLASS_def c_string_def rb_defs)

text \<open>
  C5. \<^verbatim>\<open>Window_Create\<close>, called on a Ruby object that wraps a window, with 2, 3 or 4
  arguments of which at least one is not of the class its position requires
  (VideoMode, String, Fixnum, ContextSettings): it raises the TypeError that names the
  first such position \<open>j\<close> and the class required there, and the state after the raise
  is the state before the call, so nothing reached the library.
\<close>

theorem C5_Create_validates_before_calling:
  assumes "length args \<in> {2, 3, 4}"
    and "\<exists>i<length args. CLASS_OF (args ! i) \<noteq> required_class ! i"
  shows "\<exists>j<length args.
           CLASS_OF (args ! j) \<noteq> required_class ! j
         \<and> (\<forall>i<j. CLASS_OF (args ! i) = required_class ! i)
         \<and> Window_Create args (RData a klass dmark dfree w) s
             = (Inl (Raise rb_eTypeError ''%s argument must be instance of %s''
                      [S (position_name ! j), S (class_to_s (required_class ! j))]), s)"
proof -
  consider "length args = 2" | "length args = 3" | "length args = 4"
    using assms(1) by auto
  then have "\<exists>j. create_fails args (RData a klass dmark dfree w) s j"
  proof cases
    case 1
    then obtain a0 a1 where "args = [a0, a1]" using length2 by blast
    then show ?thesis using assms(2) Create_2_fails by blast
  next
    case 2
    then obtain a0 a1 a2 where "args = [a0, a1, a2]" using length3 by blast
    then show ?thesis using assms(2) Create_3_fails by blast
  next
    case 3
    then obtain a0 a1 a2 a3 where "args = [a0, a1, a2, a3]" using length4 by blast
    then show ?thesis using assms(2) Create_4_fails by blast
  qed
  then show ?thesis unfolding create_fails_def by blast
qed

theorem C5_Create_validates_witness:
  "length [mode0, Fixnum 5, Fixnum 0] \<in> {2, 3, 4}
   \<and> (\<exists>i<length [mode0, Fixnum 5, Fixnum 0].
         CLASS_OF ([mode0, Fixnum 5, Fixnum 0] ! i) \<noteq> required_class ! i)
   \<and> (\<exists>j<length [mode0, Fixnum 5, Fixnum 0].
         CLASS_OF ([mode0, Fixnum 5, Fixnum 0] ! j) \<noteq> required_class ! j
       \<and> Window_Create [mode0, Fixnum 5, Fixnum 0] win0 s0
           = (Inl (Raise rb_eTypeError ''%s argument must be instance of %s''
                    [S (position_name ! j), S (class_to_s (required_class ! j))]), s0))
   \<and> Window_Create [mode0, Fixnum 5, Fixnum 0] win0 s0
       = (Inl (Raise rb_eTypeError ''%s argument must be instance of %s''
                [S ''second'', S ''String'']), s0)"
proof -
  have len: "length [mode0, Fixnum 5, Fixnum 0] \<in> {2, 3, 4}"
    by simp
  have bad: "\<exists>i<length [mode0, Fixnum 5, Fixnum 0].
               CLASS_OF ([mode0, Fixnum 5, Fixnum 0] ! i) \<noteq> required_class ! i"
    by (rule exI [of _ 1]) (simp add: required_class_def)
  have run: "Window_Create [mode0, Fixnum 5, Fixnum 0] win0 s0
       = (Inl (Raise rb_eTypeError ''%s argument must be instance of %s''
                [S ''second'', S ''String'']), s0)"
    by (simp add: win0_def mode0_def VALIDATE_CLASS_def rb_defs)
  from C5_Create_validates_before_calling [OF len bad, of 4096 globalWindowClass NoFunc Window_Free_func 1 s0]
  have "\<exists>j<length [mode0, Fixnum 5, Fixnum 0].
         CLASS_OF ([mode0, Fixnum 5, Fixnum 0] ! j) \<noteq> required_class ! j
       \<and> Window_Create [mode0, Fixnum 5, Fixnum 0] win0 s0
           = (Inl (Raise rb_eTypeError ''%s argument must be instance of %s''
                    [S (position_name ! j), S (class_to_s (required_class ! j))]), s0)"
    unfolding win0_def by blast
  with len bad run show ?thesis by blast
qed

subsection \<open>Events\<close>

text \<open>
  C6. \<^verbatim>\<open>Window_GetEvent\<close>, called on a Ruby object that wraps the window \<open>w\<close>, whatever
  \<^verbatim>\<open>Event.new\<close> does:
  \<^item> when no event is pending in \<open>w\<close>, it polls the library once and returns \<^verbatim>\<open>nil\<close>, and
    the poll is all that has happened;
  \<^item> it returns \<^verbatim>\<open>nil\<close> in no other case;
  \<^item> when \<open>event\<close> is the oldest pending event and \<^verbatim>\<open>Event.new\<close>, called after the poll
    with the type of \<open>event\<close>, returns a wrapper of a live \<^verbatim>\<open>sf::Event\<close> at \<open>p\<close>, it
    returns that wrapper, and the \<^verbatim>\<open>sf::Event\<close> at \<open>p\<close> is \<open>event\<close>;
  \<^item> when \<^verbatim>\<open>Event.new\<close> raises instead, so does \<^verbatim>\<open>Window_GetEvent\<close>.
\<close>

theorem C6_GetEvent:
  "(lib_pending s w = [] \<longrightarrow>
      Window_GetEvent Event_new (RData a klass dmark dfree w) s
        = (Inr Qnil, s\<lparr>lib_calls := lib_calls s @ [GetEvent w]\<rparr>))
   \<and> (fst (Window_GetEvent Event_new (RData a klass dmark dfree w) s) = Inr Qnil
      \<longleftrightarrow> lib_pending s w = [])
   \<and> (lib_pending s w = event # rest
      \<and> Event_new (INT2FIX (Type event))
            (s\<lparr>lib_calls := lib_calls s @ [GetEvent w],
               lib_pending := (lib_pending s)(w := rest)\<rparr>)
          = (Inr (RData a' klass' dmark' dfree' p), s2)
      \<and> cxx_events s2 p = Some fresh
      \<longrightarrow> Window_GetEvent Event_new (RData a klass dmark dfree w) s
            = (Inr (RData a' klass' dmark' dfree' p),
               s2\<lparr>cxx_events := (cxx_events s2)(p \<mapsto> event)\<rparr>))
   \<and> (lib_pending s w = event # rest
      \<and> Event_new (INT2FIX (Type event))
            (s\<lparr>lib_calls := lib_calls s @ [GetEvent w],
               lib_pending := (lib_pending s)(w := rest)\<rparr>)
          = (Inl err, s2)
      \<longrightarrow> Window_GetEvent Event_new (RData a klass dmark dfree w) s = (Inl err, s2))"
proof (intro conjI impI)
  assume "lib_pending s w = []"
  then show "Window_GetEvent Event_new (RData a klass dmark dfree w) s
        = (Inr Qnil, s\<lparr>lib_calls := lib_calls s @ [GetEvent w]\<rparr>)"
    by (simp add: Window_GetEvent_def sf_Window_GetEvent_def rb_defs)
next
  show "fst (Window_GetEvent Event_new (RData a klass dmark dfree w) s) = Inr Qnil
          \<longleftrightarrow> lib_pending s w = []"
  proof (cases "lib_pending s w")
    case Nil
    then show ?thesis
      by (simp add: Window_GetEvent_def sf_Window_GetEvent_def rb_defs)
  next
    case (Cons e es)
    let ?s1 = "s\<lparr>lib_calls := lib_calls s @ [GetEvent w],
                 lib_pending := (lib_pending s)(w := es)\<rparr>"
    obtain r s2 where new: "Event_new (INT2FIX (Type e)) ?s1 = (r, s2)"
      by (cases "Event_new (INT2FIX (Type e)) ?s1")
    have "fst (Window_GetEvent Event_new (RData a klass dmark dfree w) s) \<noteq> Inr Qnil"
    proof (cases r)
      case (Inl err)
      with Cons new show ?thesis
        by (simp add: Window_GetEvent_def sf_Window_GetEvent_def rb_defs)
    next
      case (Inr rbObject)
      with Cons new show ?thesis
        by (cases rbObject)
           (simp_all add: Window_GetEvent_def sf_Window_GetEvent_def assign_event_def rb_defs
              split: option.splits)
    qed
    with Cons show ?thesis by simp
  qed
next
  assume "lib_pending s w = event # rest
      \<and> Event_new (INT2FIX (Type event))
            (s\<lparr>lib_calls := lib_calls s @ [GetEvent w],
               lib_pending := (lib_pending s)(w := rest)\<rparr>)
          = (Inr (RData a' klass' dmark' dfree' p), s2)
      \<and> cxx_events s2 p = Some fresh"
  then show "Window_GetEvent Event_new (RData a klass dmark dfree w) s
            = (Inr (RData a' klass' dmark' dfree' p),
               s2\<lparr>cxx_events := (cxx_events s2)(p \<mapsto> event)\<rparr>)"
    by (simp add: Window_GetEvent_def sf_Window_GetEvent_def assign_event_def rb_defs)
next
  assume "lib_pending s w = event # rest
      \<and> Event_new (INT2FIX (Type event))
            (s\<lparr>lib_calls := lib_calls s @ [GetEvent w],
               lib_pending := (lib_pending s)(w := rest)\<rparr>)
          = (Inl err, s2)"
  then show "Window_GetEvent Event_new (RData a klass dmark dfree w) s = (Inl err, s2)"
    by (simp add: Window_GetEvent_def sf_Window_GetEvent_def rb_defs)
qed

theorem C6_GetEvent_witness:
  "lib_pending s0 1 = event0 # []
   \<and> Event_New (INT2FIX (Type event0))
        (s0\<lparr>lib_calls := lib_calls s0 @ [GetEvent 1],
            lib_pending := (lib_pending s0)(1 := [])\<rparr>)
      = (Inr (RData 8192 globalEventClass NoFunc Event_Free_func 4),
         s0\<lparr>rb_free := 8232, cxx_count := 4, lib_calls := [GetEvent 1],
            lib_pending := (lib_pending s0)(1 := []),
            cxx_events := [4 \<mapsto> \<lparr>Type = 4, Payload = []\<rparr>]\<rparr>)
   \<and> Window_GetEvent Event_New win0 s0
       = (Inr (RData 8192 globalEventClass NoFunc Event_Free_func 4),
          s0\<lparr>rb_free := 8232, cxx_count := 4, lib_calls := [GetEvent 1],
            lib_pending := (lib_pending s0)(1 := []),
            cxx_events := [4 \<mapsto> event0]\<rparr>)
   \<and> lib_pending s0 2 = []
   \<and> Window_GetEvent Event_New (RData 4336 globalWindowClass NoFunc Window_Free_func 2) s0
       = (Inr Qnil, s0\<lparr>lib_calls := [GetEvent 2]\<rparr>)"
proof -
  have pending: "lib_pending s0 1 = event0 # []"
    by (simp add: s0_def)
  have new: "Event_New (INT2FIX (Type event0))
        (s0\<lparr>lib_calls := lib_calls s0 @ [GetEvent 1],
            lib_pending := (lib_pending s0)(1 := [])\<rparr>)
      = (Inr (RData 8192 globalEventClass NoFunc Event_Free_func 4),
         s0\<lparr>rb_free := 8232, cxx_count := 4, lib_calls := [GetEvent 1],
            lib_pending := (lib_pending s0)(1 := []),
            cxx_events := [4 \<mapsto> \<lparr>Type = 4, Payload = []\<rparr>]\<rparr>)"
    by (simp add: INT2FIX_def event0_def s0_def Data_Wrap_Struct_def)
  have live: "cxx_events
      (s0\<lparr>rb_free := 8232, cxx_count := 4, lib_calls := [GetEvent 1],
          lib_pending := (lib_pending s0)(1 := []),
          cxx_events := [4 \<mapsto> \<lparr>Type = 4, Payload = []\<rparr>]\<rparr>) 4
        = Some \<lparr>Type = 4, Payload = []\<rparr>"
    by simp
  have none: "lib_pending s0 2 = []"
    by (simp add: s0_def)
  have run: "Window_GetEvent Event_New win0 s0
       = (Inr (RData 8192 globalEventClass NoFunc Event_Free_func 4),
          s0\<lparr>rb_free := 8232, cxx_count := 4, lib_calls := [GetEvent 1],
            lib_pending := (lib_pending s0)(1 := []),
            cxx_events := [4 \<mapsto> event0]\<rparr>)"
    unfolding win0_def
    using pending new live
      C6_GetEvent [of s0 1 Event_New 4096 globalWindowClass NoFunc Window_Free_func
        event0 "[]" 8192 globalEventClass NoFunc Event_Free_func 4
        "s0\<lparr>rb_free := 8232, cxx_count := 4, lib_calls := [GetEvent 1],
            lib_pending := (lib_pending s0)(1 := []),
            cxx_events := [4 \<mapsto> \<lparr>Type = 4, Payload = []\<rparr>]\<rparr>"
        "\<lparr>Type = 4, Payload = []\<rparr>", THEN conjunct2, THEN conjunct2, THEN conjunct1]
    by simp
  from C6_GetEvent [of s0 2 Event_New 4336 globalWindowClass NoFunc Window_Free_func] none
  have "Window_GetEvent Event_New (RData 4336 globalWindowClass NoFunc Window_Free_func 2) s0
       = (Inr Qnil, s0\<lparr>lib_calls := [GetEvent 2]\<rparr>)"
    by (simp add: s0_def)
  with pending new run none show ?thesis by simp
qed

text \<open>
  With \<^verbatim>\<open>Event.new\<close> as modelled, the object returned is new: the Ruby object and the
  \<^verbatim>\<open>sf::Event\<close> behind it are both allocated by this call.
\<close>

lemma GetEvent_constructs_new_object:
  "lib_pending s w = event # rest \<Longrightarrow>
   Window_GetEvent Event_New (RData a klass dmark dfree w) s
     = (Inr (RData (rb_free s) globalEventClass NoFunc Event_Free_func (Suc (cxx_count s))),
        s\<lparr>rb_free := rb_free s + 40, cxx_count := Suc (cxx_count s),
          lib_calls := lib_calls s @ [GetEvent w],
          lib_pending := (lib_pending s)(w := rest),
          cxx_events := (cxx_events s)(Suc (cxx_count s) \<mapsto> event)\<rparr>)"
  by (simp add: Window_GetEvent_def sf_Window_GetEvent_def Data_Wrap_Struct_def
      assign_event_def INT2FIX_def rb_defs)

subsection \<open>The icon\<close>

lemma dataSize_exact:
  assumes "0 \<le> w" "0 \<le> h" "w * h * 4 < 2 ^ 32"
  shows "unat (word_of_int w * word_of_int h * 4 :: 32 word) = nat (w * h * 4)"
proof -
  have "(word_of_int w * word_of_int h * 4 :: 32 word) = word_of_int (w * h * 4)"
    by simp
  moreover have "0 \<le> w * h * 4" using assms by simp
  ultimately show ?thesis using assms(3)
    by (simp only: unat_eq_nat_uint uint_word_of_int) (simp add: take_bit_eq_mod)
qed

lemma take_Suc_update:
  "i < length xs \<Longrightarrow> take (Suc i) (xs[i := x]) = take i xs @ [x]"
  by (simp add: take_Suc_conv_app_nth)

text \<open>
  The loop, started at \<open>index\<close> on a live array of \<open>dataSize\<close> bytes: when every
  remaining entry converts, it ends and the array holds the converted entries from
  \<open>index\<close> on.
\<close>

lemma SetIcon_loop_run:
  assumes "cxx_arrays s tempData = Some bytes" "length bytes = dataSize" "index \<le> dataSize"
    and "\<forall>i. index \<le> i \<and> i < dataSize \<longrightarrow> NUM2CHR (rb_ary_entry pixels i) = Inr (f i)"
  shows "SetIcon_loop pixels tempData dataSize index s
           = (Inr (), s\<lparr>cxx_arrays := (cxx_arrays s)
                (tempData \<mapsto> take index bytes @ map f [index..<dataSize])\<rparr>)"
  using assms
proof (induction "dataSize - index" arbitrary: index s bytes)
  case 0
  then have "index = dataSize" by simp
  with 0 show ?case
    by (subst SetIcon_loop.simps) (simp add: map_upd_triv)
next
  case (Suc n)
  then have lt: "index < dataSize" by simp
  let ?s1 = "s\<lparr>cxx_arrays := (cxx_arrays s)(tempData \<mapsto> bytes[index := f index])\<rparr>"
  have conv: "NUM2CHR (rb_ary_entry pixels index) = Inr (f index)"
    using Suc.prems(4) lt by simp
  have store: "array_store tempData index (f index) s = (Inr (), ?s1)"
    using Suc.prems(1,2) lt by (simp add: array_store_def)
  have step: "SetIcon_loop pixels tempData dataSize index s
                = SetIcon_loop pixels tempData dataSize (index + 1) ?s1"
    using lt conv store by (subst SetIcon_loop.simps) simp
  have rest: "SetIcon_loop pixels tempData dataSize (index + 1) ?s1
      = (Inr (), ?s1\<lparr>cxx_arrays := (cxx_arrays ?s1)(tempData \<mapsto>
            take (index + 1) (bytes[index := f index]) @ map f [index + 1..<dataSize])\<rparr>)"
    using Suc.hyps(2) Suc.prems(2,4) lt
    by (intro Suc.hyps(1)) auto
  have "take (index + 1) (bytes[index := f index]) @ map f [index + 1..<dataSize]
          = take index bytes @ map f [index..<dataSize]"
    using lt Suc.prems(2) by (simp add: take_Suc_update upt_conv_Cons)
  then show ?case using step rest by simp
qed

text \<open>
  The whole function, for sizes \<^verbatim>\<open>FIX2UINT\<close> accepts, a buffer size \<open>n\<close> as the 32-bit
  product gives it, and entries that all convert.
\<close>

lemma Window_SetIcon_run:
  assumes size: "unat (word_of_int w * word_of_int h * 4 :: 32 word) = n"
    and range: "w < 2 ^ 32" "h < 2 ^ 32"
    and conv: "\<forall>i<n. NUM2CHR (rb_ary_entry (RArray (rb_free s) (flatten (RArray a xs))) i)
                     = Inr (f i)"
  shows "Window_SetIcon (RData a0 klass dmark dfree obj) (Fixnum w) (Fixnum h) (RArray a xs) s
     = (Inr Qnil,
        s\<lparr>rb_free := rb_free s + 40, cxx_count := Suc (cxx_count s),
          lib_calls := lib_calls s
            @ [SetIcon obj (word_of_int w) (word_of_int h) (Suc (cxx_count s)) (map f [0..<n])],
          cxx_arrays := (cxx_arrays s)(Suc (cxx_count s) := None)\<rparr>)"
proof -
  let ?p = "Suc (cxx_count s)"
  let ?s1 = "s\<lparr>cxx_count := ?p, cxx_arrays := (cxx_arrays s)(?p \<mapsto> replicate n 0)\<rparr>"
  let ?s2 = "?s1\<lparr>rb_free := rb_free s + 40\<rparr>"
  let ?pixels = "RArray (rb_free s) (flatten (RArray a xs))"
  have loop: "SetIcon_loop ?pixels ?p n 0 ?s2
      = (Inr (), ?s2\<lparr>cxx_arrays := (cxx_arrays ?s2)
           (?p \<mapsto> take 0 (replicate n 0) @ map f [0..<n])\<rparr>)"
    using conv by (intro SetIcon_loop_run) auto
  show ?thesis
    using size range loop
    by (simp add: Window_SetIcon_def new_Uint8_array_def sf_Window_SetIcon_def
        delete_array_def rb_defs)
qed

text \<open>
  The size of the buffer is the product modulo \<open>2 ^ 32\<close>. For an icon of 32768 by 32768
  pixels it is 0: the library is handed an empty buffer, whatever the array holds.
\<close>

lemma SetIcon_size_wraps:
  "Window_SetIcon (RData a0 klass dmark dfree obj) (Fixnum 32768) (Fixnum 32768) (RArray a xs) s
     = (Inr Qnil,
        s\<lparr>rb_free := rb_free s + 40, cxx_count := Suc (cxx_count s),
          lib_calls := lib_calls s @ [SetIcon obj 32768 32768 (Suc (cxx_count s)) []],
          cxx_arrays := (cxx_arrays s)(Suc (cxx_count s) := None)\<rparr>)"
  using Window_SetIcon_run [of 32768 32768 0 s a xs undefined a0 klass dmark dfree obj]
  by simp

lemma replicate_4: "replicate 4 x = [x, x, x, x]"
  by (simp add: numeral_eq_Suc)

lemma all_less_4: "(\<forall>i<4::nat. P i) \<longleftrightarrow> P 0 \<and> P 1 \<and> P 2 \<and> P 3"
proof -
  have "\<And>i::nat. i < 4 \<longleftrightarrow> i = 0 \<or> i = 1 \<or> i = 2 \<or> i = 3" by auto
  then show ?thesis by auto
qed

text \<open>
  C7, as the code has it. \<^verbatim>\<open>Window_SetIcon\<close>, called on a Ruby object that wraps the
  window \<open>obj\<close>, with a width \<open>w\<close> and a height \<open>h\<close> that are not negative, are both
  below \<open>2 ^ 32\<close> and whose product \<open>w * h * 4\<close> is below \<open>2 ^ 32\<close>, and with an array whose flattening has at
  least \<open>w * h * 4\<close> entries, the first \<open>w * h * 4\<close> of them integers in the range of
  \<^verbatim>\<open>int\<close>: the library's SetIcon is called once, with a buffer of \<open>w * h * 4\<close> bytes
  whose byte \<open>i\<close> is entry \<open>i\<close> of the flattened array modulo 256, and when the
  function returns the buffer is no longer allocated.
\<close>

theorem C7_SetIcon_buffer:
  assumes "0 \<le> w" "0 \<le> h" "w * h * 4 < 2 ^ 32"
    and "w < 2 ^ 32" "h < 2 ^ 32"
    and "nat (w * h * 4) \<le> length (flatten (RArray a xs))"
    and "\<forall>i<nat (w * h * 4). \<exists>v. flatten (RArray a xs) ! i = Fixnum v
            \<and> - (2 ^ 31) \<le> v \<and> v < 2 ^ 31"
  shows "\<exists>buf. Window_SetIcon (RData a0 klass dmark dfree obj) (Fixnum w) (Fixnum h)
                 (RArray a xs) s
     = (Inr Qnil,
        s\<lparr>rb_free := rb_free s + 40, cxx_count := Suc (cxx_count s),
          lib_calls := lib_calls s
            @ [SetIcon obj (word_of_int w) (word_of_int h) (Suc (cxx_count s)) buf],
          cxx_arrays := (cxx_arrays s)(Suc (cxx_count s) := None)\<rparr>)
     \<and> length buf = nat (w * h * 4)
     \<and> (\<forall>i<nat (w * h * 4). \<exists>v. flatten (RArray a xs) ! i = Fixnum v
            \<and> uint (buf ! i) = v mod 256)"
proof -
  let ?n = "nat (w * h * 4)"
  let ?flat = "flatten (RArray a xs)"
  let ?f = "\<lambda>i. case ?flat ! i of Fixnum v \<Rightarrow> (word_of_int v :: 8 word) | _ \<Rightarrow> 0"
  have size: "unat (word_of_int w * word_of_int h * 4 :: 32 word) = ?n"
    using assms(1-3) by (rule dataSize_exact)
  have conv: "\<forall>i<?n. NUM2CHR (rb_ary_entry (RArray (rb_free s) ?flat) i) = Inr (?f i)"
  proof (intro allI impI)
    fix i assume i: "i < ?n"
    then obtain v where v: "?flat ! i = Fixnum v" "- (2 ^ 31) \<le> v" "v < 2 ^ 31"
      using assms(7) by blast
    have "i < length ?flat" using i assms(6) by simp
    then show "NUM2CHR (rb_ary_entry (RArray (rb_free s) ?flat) i) = Inr (?f i)"
      using v by (simp add: check_int_def)
  qed
  have bytes: "\<forall>i<?n. \<exists>v. ?flat ! i = Fixnum v \<and> uint (map ?f [0..<?n] ! i) = v mod 256"
  proof (intro allI impI)
    fix i assume i: "i < ?n"
    then obtain v where v: "?flat ! i = Fixnum v"
      using assms(7) by blast
    then show "\<exists>v. ?flat ! i = Fixnum v \<and> uint (map ?f [0..<?n] ! i) = v mod 256"
      using i by (simp add: uint_word_of_int take_bit_eq_mod)
  qed
  from Window_SetIcon_run [OF size assms(4,5) conv] bytes show ?thesis
    by (intro exI [of _ "map ?f [0..<?n]"]) simp
qed

theorem C7_SetIcon_buffer_witness:
  "(0::int) \<le> 1 \<and> (1::int) * 1 * 4 < 2 ^ 32 \<and> (1::int) < 2 ^ 32
   \<and> nat (1 * 1 * 4) \<le> length (flatten pixels0)
   \<and> flatten pixels0 = [Fixnum 255, Fixnum 0, Fixnum 128, Fixnum 255]
   \<and> (\<exists>buf. Window_SetIcon win0 (Fixnum 1) (Fixnum 1) pixels0 s0
         = (Inr Qnil,
            s0\<lparr>rb_free := rb_free s0 + 40, cxx_count := Suc (cxx_count s0),
              lib_calls := lib_calls s0 @ [SetIcon 1 1 1 (Suc (cxx_count s0)) buf],
              cxx_arrays := (cxx_arrays s0)(Suc (cxx_count s0) := None)\<rparr>)
       \<and> length buf = 4
       \<and> uint (buf ! 0) = 255 \<and> uint (buf ! 1) = 0 \<and> uint (buf ! 2) = 128 \<and> uint (buf ! 3) = 255)"
proof -
  have flat: "flatten pixels0 = [Fixnum 255, Fixnum 0, Fixnum 128, Fixnum 255]"
    by (simp add: pixels0_def)
  have h1: "(0::int) \<le> 1" by simp
  have h3: "(1::int) * 1 * 4 < 2 ^ 32" by simp
  have h3': "(1::int) < 2 ^ 32" by simp
  have h4: "nat (1 * 1 * 4) \<le> length (flatten (RArray 4256 [Fixnum 255, RArray 4296 [Fixnum 0, Fixnum 128], Fixnum 255]))"
    by simp
  have h5: "\<forall>i<nat (1 * 1 * 4). \<exists>v. flatten (RArray 4256 [Fixnum 255, RArray 4296 [Fixnum 0, Fixnum 128], Fixnum 255]) ! i = Fixnum v
        \<and> - (2 ^ 31) \<le> v \<and> v < 2 ^ 31"
    by (simp add: all_less_4)
  from C7_SetIcon_buffer [OF h1 h1 h3 h3' h3' h4 h5, of 4096 globalWindowClass NoFunc Window_Free_func 1 s0]
  obtain buf where buf: "Window_SetIcon win0 (Fixnum 1) (Fixnum 1) pixels0 s0
         = (Inr Qnil,
            s0\<lparr>rb_free := rb_free s0 + 40, cxx_count := Suc (cxx_count s0),
              lib_calls := lib_calls s0 @ [SetIcon 1 1 1 (Suc (cxx_count s0)) buf],
              cxx_arrays := (cxx_arrays s0)(Suc (cxx_count s0) := None)\<rparr>)"
      "length buf = 4"
      "\<forall>i<4. \<exists>v. flatten pixels0 ! i = Fixnum v \<and> uint (buf ! i) = v mod 256"
    unfolding win0_def pixels0_def by auto
  from buf(3) have "uint (buf ! 0) = 255 \<and> uint (buf ! 1) = 0 \<and> uint (buf ! 2) = 128 \<and> uint (buf ! 3) = 255"
    unfolding all_less_4 flat by simp
  with buf(1,2) flat h1 h3 h3' show ?thesis
    by (intro conjI exI [of _ buf]) simp_all
qed

text \<open>
  C7, as the claim states it, fails for an entry that is not a byte value: the array
  \<open>[256, 0, 0, 0]\<close> has the four entries an icon of 1 by 1 needs, and the buffer the
  library gets starts with 0, not with 256.
\<close>

theorem C7_SetIcon_counterexample:
  "nat (1 * 1 * 4) \<le> length (flatten (RArray 4256 [Fixnum 256, Fixnum 0, Fixnum 0, Fixnum 0]))
   \<and> flatten (RArray 4256 [Fixnum 256, Fixnum 0, Fixnum 0, Fixnum 0]) ! 0 = Fixnum 256
   \<and> Window_SetIcon win0 (Fixnum 1) (Fixnum 1)
       (RArray 4256 [Fixnum 256, Fixnum 0, Fixnum 0, Fixnum 0]) s0
       = (Inr Qnil,
          s0\<lparr>rb_free := 8232, cxx_count := 4, lib_calls := [SetIcon 1 1 1 4 [0, 0, 0, 0]]\<rparr>)
   \<and> uint ([0, 0, 0, 0 :: 8 word] ! 0) \<noteq> 256"
  by (simp add: Window_SetIcon_def win0_def s0_def new_Uint8_array_def sf_Window_SetIcon_def
      delete_array_def SetIcon_loop.simps array_store_def check_int_def rb_defs replicate_4)

text \<open>
  An entry that does not convert raises out of the loop, before the call and before
  \<^verbatim>\<open>delete[]\<close>: the library is not called, and the buffer stays allocated.
\<close>

lemma SetIcon_raise_keeps_buffer:
  "Window_SetIcon win0 (Fixnum 1) (Fixnum 1) (RArray 4256 [Qnil, Qnil, Qnil, Qnil]) s0
     = (Inl (Raise rb_eTypeError ''no implicit conversion from nil to integer'' []),
        s0\<lparr>rb_free := 8232, cxx_count := 4, cxx_arrays := [4 \<mapsto> [0, 0, 0, 0]]\<rparr>)"
  by (simp add: Window_SetIcon_def win0_def s0_def new_Uint8_array_def SetIcon_loop.simps
      rb_defs replicate_4)

subsection \<open>Ownership\<close>

lemma new_then_wrap:
  "rb_bind (new_Window ctor) (wrap_Window aKlass) s
     = (Inr (RData (rb_free s) aKlass NoFunc Window_Free_func (Suc (cxx_count s))),
        s\<lparr>rb_free := rb_free s + 40, cxx_count := Suc (cxx_count s),
          lib_calls := lib_calls s @ [ctor (Suc (cxx_count s))]\<rparr>)"
  by (simp add: new_Window_def wrap_Window_def Data_Wrap_Struct_def rb_obj_call_init_def rb_defs)

lemma new_then_wrap_result:
  assumes "constructed (ctor (Suc (cxx_count s))) = Some (Suc (cxx_count s))"
    and "rb_bind (new_Window ctor) (wrap_Window aKlass) s = (Inr v, s')"
  shows "new_result aKlass s v s'"
  using assms unfolding new_then_wrap
  by (auto simp: new_result_def Window_Free_def NULL_def)

lemma Window_New_Inr:
  assumes "Window_New args aKlass s = (Inr v, s')"
  shows "new_result aKlass s v s'"
proof (cases "(args, aKlass)" rule: Window_New.cases)
  case (1 k)
  then show ?thesis using assms by (simp add: deref_def NULL_def rb_defs)
next
  case (2 a0 a1 k)
  then show ?thesis using assms
    by (auto simp: rb_bind_Inr dest!: pure_steps
        intro!: new_then_wrap_result [unfolded rb_bind_Inr])
next
  case (3 a0 a1 a2 k)
  then show ?thesis using assms
    by (auto simp: rb_bind_Inr dest!: pure_steps
        intro!: new_then_wrap_result [unfolded rb_bind_Inr])
next
  case (4 a0 a1 a2 a3 k)
  then show ?thesis using assms
    by (auto simp: rb_bind_Inr dest!: pure_steps
        intro!: new_then_wrap_result [unfolded rb_bind_Inr])
qed (use assms in \<open>simp_all add: rb_defs\<close>)

lemma Window_New_Inl:
  assumes "Window_New args aKlass s = (Inl e, s')"
  shows "s' = s"
proof (cases "(args, aKlass)" rule: Window_New.cases)
  case (1 k)
  then show ?thesis using assms by (simp add: deref_def NULL_def rb_defs)
next
  case (2 a0 a1 k)
  then show ?thesis using assms
    by (auto simp: rb_bind_Inl new_then_wrap dest!: pure_steps)
next
  case (3 a0 a1 a2 k)
  then show ?thesis using assms
    by (auto simp: rb_bind_Inl new_then_wrap dest!: pure_steps)
next
  case (4 a0 a1 a2 a3 k)
  then show ?thesis using assms
    by (auto simp: rb_bind_Inl new_then_wrap dest!: pure_steps)
qed (use assms in \<open>simp_all add: rb_defs\<close>)

text \<open>
  C8. When \<^verbatim>\<open>Window_New\<close> raises an exception, it has constructed no window. When it
  returns, it has constructed exactly one, at the address \<open>Suc (cxx_count s)\<close>, and the
  value returned wraps that address with \<^verbatim>\<open>Window_Free\<close> as its free function; when the
  garbage collector collects the wrapper, the one call this adds to the trace is the
  \<^verbatim>\<open>delete\<close> of that window.
\<close>

theorem C8_New_pairs_allocation_with_free:
  "(Window_New args aKlass s = (Inl (Raise exc fmt fargs), s') \<longrightarrow> lib_calls s' = lib_calls s)
   \<and> (Window_New args aKlass s = (Inr v, s') \<longrightarrow>
        (\<exists>c. v = RData (rb_free s) aKlass NoFunc Window_Free_func (Suc (cxx_count s))
           \<and> constructed c = Some (Suc (cxx_count s))
           \<and> lib_calls s' = lib_calls s @ [c]
           \<and> lib_calls (obj_free v s') = lib_calls s @ [c, delete_Window (Suc (cxx_count s))]))"
  using Window_New_Inl [of args aKlass s "Raise exc fmt fargs" s']
    Window_New_Inr [of args aKlass s v s']
  unfolding new_result_def by blast

theorem C8_New_pairs_witness:
  "Window_New [mode0, title0] globalWindowClass s0
     = (Inr (RData 8192 globalWindowClass NoFunc Window_Free_func 4),
        s0\<lparr>rb_free := 8232, cxx_count := 4, lib_calls := [new_Window2 4 2 ''SFML window'']\<rparr>)
   \<and> (\<exists>c. constructed c = Some (Suc (cxx_count s0))
        \<and> lib_calls (obj_free (RData 8192 globalWindowClass NoFunc Window_Free_func 4)
             (s0\<lparr>rb_free := 8232, cxx_count := 4,
                 lib_calls := [new_Window2 4 2 ''SFML window'']\<rparr>))
           = lib_calls s0 @ [c, delete_Window (Suc (cxx_count s0))])
   \<and> Window_New [mode0, Qnil] globalWindowClass s0
     = (Inl (Raise rb_eTypeError ''%s argument must be instance of %s''
               [S ''second'', S ''String'']), s0)"
proof -
  have run: "Window_New [mode0, title0] globalWindowClass s0
     = (Inr (RData 8192 globalWindowClass NoFunc Window_Free_func 4),
        s0\<lparr>rb_free := 8232, cxx_count := 4, lib_calls := [new_Window2 4 2 ''SFML window'']\<rparr>)"
    by (simp add: mode0_def title0_def s0_def VALIDATE_CLASS_def new_Window_def wrap_Window_def
        Data_Wrap_Struct_def rb_obj_call_init_def c_string_def rb_defs)
  have bad: "Window_New [mode0, Qnil] globalWindowClass s0
     = (Inl (Raise rb_eTypeError ''%s argument must be instance of %s''
               [S ''second'', S ''String'']), s0)"
    by (simp add: mode0_def VALIDATE_CLASS_def rb_defs)
  from C8_New_pairs_allocation_with_free
         [of "[mode0, title0]" globalWindowClass s0 _ _ _ _
             "RData 8192 globalWindowClass NoFunc Window_Free_func 4"] run bad
  show ?thesis by blast
qed

text \<open>
  C9. \<^verbatim>\<open>Window_GetInput\<close> and \<^verbatim>\<open>Window_GetSettings\<close>, called on a Ruby object that wraps
  the window \<open>w\<close>, return a wrapper of the address of the \<^verbatim>\<open>sf::Input\<close> and of the
  \<^verbatim>\<open>sf::ContextSettings\<close> the window owns, with no mark and no free function. When
  the garbage collector collects such a wrapper, in any state, nothing changes: no
  library call, no \<^verbatim>\<open>delete\<close>.
\<close>

theorem C9_borrowed_pointers_have_no_free:
  "Window_GetInput (RData a klass dmark dfree w) s
     = (Inr (RData (rb_free s) globalInputClass NoFunc NoFunc (lib_input s w)),
        s\<lparr>rb_free := rb_free s + 40, lib_calls := lib_calls s @ [GetInput w]\<rparr>)
   \<and> Window_GetSettings (RData a klass dmark dfree w) s
     = (Inr (RData (rb_free s) globalContextSettingsClass NoFunc NoFunc (lib_settings s w)),
        s\<lparr>rb_free := rb_free s + 40, lib_calls := lib_calls s @ [GetSettings w]\<rparr>)
   \<and> obj_free (RData (rb_free s) globalInputClass NoFunc NoFunc (lib_input s w)) s' = s'
   \<and> obj_free (RData (rb_free s) globalContextSettingsClass NoFunc NoFunc (lib_settings s w)) s' = s'"
  by (simp add: Window_GetInput_def Window_GetSettings_def sf_Window_GetInput_def
      sf_Window_GetSettings_def Data_Wrap_Struct_def rb_obj_call_init_def rb_defs)


subsection \<open>Unsigned coercion\<close>

text \<open>
  A Fixnum argument of \<open>2 ^ 32\<close> or more does not pass \<^verbatim>\<open>FIX2UINT\<close>: the setter raises
  RangeError and the library is not reached.
\<close>

lemma setters_raise_above_UINT_MAX:
  assumes "2 ^ 32 \<le> x"
  shows "Window_SetPosition (RData a klass dmark dfree w) (Fixnum x) aY s
           = (Inl (Raise rb_eRangeError ''integer %lu too big to convert to unsigned int''
                     [D x]), s)"
    and "Window_SetSize (RData a klass dmark dfree w) (Fixnum x) aHeight s
           = (Inl (Raise rb_eRangeError ''integer %lu too big to convert to unsigned int''
                     [D x]), s)"
    and "Window_SetCursorPosition (RData a klass dmark dfree w) (Fixnum x) aY s
           = (Inl (Raise rb_eRangeError ''integer %lu too big to convert to unsigned int''
                     [D x]), s)"
    and "Window_SetFramerateLimit (RData a klass dmark dfree w) (Fixnum x) s
           = (Inl (Raise rb_eRangeError ''integer %lu too big to convert to unsigned int''
                     [D x]), s)"
  using assms
  by (simp_all add: Window_SetPosition_def Window_SetSize_def Window_SetCursorPosition_def
      Window_SetFramerateLimit_def rb_defs)

text \<open>
  C10, as the code has it. \<^verbatim>\<open>Window_SetPosition\<close>, \<^verbatim>\<open>Window_SetSize\<close>,
  \<^verbatim>\<open>Window_SetCursorPosition\<close> and \<^verbatim>\<open>Window_SetFramerateLimit\<close>, called on a Ruby object
  that wraps the window \<open>w\<close> with Fixnum arguments \<open>x\<close> and \<open>y\<close> below \<open>2 ^ 32\<close>, negative
  ones included: no error is raised, and the library method is called once with the
  32-bit unsigned values of \<open>x\<close> and \<open>y\<close>, which are \<open>x mod 2 ^ 32\<close> and \<open>y mod 2 ^ 32\<close>.
\<close>

theorem C10_FIX2UINT_setters:
  "(x < 2 ^ 32 \<and> y < 2 ^ 32 \<longrightarrow>
      Window_SetPosition (RData a klass dmark dfree w) (Fixnum x) (Fixnum y) s
        = (Inr Qnil,
           s\<lparr>lib_calls := lib_calls s @ [SetPosition w (word_of_int x) (word_of_int y)]\<rparr>)
    \<and> Window_SetSize (RData a klass dmark dfree w) (Fixnum x) (Fixnum y) s
        = (Inr Qnil, s\<lparr>lib_calls := lib_calls s @ [SetSize w (word_of_int x) (word_of_int y)]\<rparr>)
    \<and> Window_SetCursorPosition (RData a klass dmark dfree w) (Fixnum x) (Fixnum y) s
        = (Inr Qnil,
           s\<lparr>lib_calls := lib_calls s
               @ [SetCursorPosition w (word_of_int x) (word_of_int y)]\<rparr>)
    \<and> Window_SetFramerateLimit (RData a klass dmark dfree w) (Fixnum x) s
        = (Inr Qnil, s\<lparr>lib_calls := lib_calls s @ [SetFramerateLimit w (word_of_int x)]\<rparr>))
   \<and> uint (word_of_int x :: 32 word) = x mod 2 ^ 32
   \<and> uint (word_of_int y :: 32 word) = y mod 2 ^ 32"
  by (simp add: Window_SetPosition_def Window_SetSize_def Window_SetCursorPosition_def
      Window_SetFramerateLimit_def rb_defs uint_word_of_int take_bit_eq_mod)

theorem C10_FIX2UINT_setters_witness:
  "(- 1 :: int) < 2 ^ 32 \<and> (5 :: int) < 2 ^ 32
   \<and> Window_SetPosition win0 (Fixnum (- 1)) (Fixnum 5) s0
       = (Inr Qnil, s0\<lparr>lib_calls := [SetPosition 1 4294967295 5]\<rparr>)
   \<and> Window_SetSize win0 (Fixnum (- 1)) (Fixnum 5) s0
       = (Inr Qnil, s0\<lparr>lib_calls := [SetSize 1 4294967295 5]\<rparr>)
   \<and> Window_SetCursorPosition win0 (Fixnum (- 1)) (Fixnum 5) s0
       = (Inr Qnil, s0\<lparr>lib_calls := [SetCursorPosition 1 4294967295 5]\<rparr>)
   \<and> Window_SetFramerateLimit win0 (Fixnum (- 1)) s0
       = (Inr Qnil, s0\<lparr>lib_calls := [SetFramerateLimit 1 4294967295]\<rparr>)
   \<and> uint (4294967295 :: 32 word) = (- 1) mod 2 ^ 32"
  using C10_FIX2UINT_setters [of "- 1" 5 4096 globalWindowClass NoFunc Window_Free_func 1 s0]
  by (simp add: win0_def s0_def)

text \<open>
  C10, as the claim states it, fails for an argument of \<open>2 ^ 32\<close>: each of the four
  setters raises RangeError and forwards nothing, where the claim has no error and the
  value 0 forwarded.
\<close>

theorem C10_FIX2UINT_counterexample:
  "Window_SetPosition win0 (Fixnum 4294967296) (Fixnum 0) s0
     = (Inl (Raise rb_eRangeError ''integer %lu too big to convert to unsigned int''
               [D 4294967296]), s0)
   \<and> Window_SetSize win0 (Fixnum 4294967296) (Fixnum 0) s0
     = (Inl (Raise rb_eRangeError ''integer %lu too big to convert to unsigned int''
               [D 4294967296]), s0)
   \<and> Window_SetCursorPosition win0 (Fixnum 4294967296) (Fixnum 0) s0
     = (Inl (Raise rb_eRangeError ''integer %lu too big to convert to unsigned int''
               [D 4294967296]), s0)
   \<and> Window_SetFramerateLimit win0 (Fixnum 4294967296) s0
     = (Inl (Raise rb_eRangeError ''integer %lu too big to convert to unsigned int''
               [D 4294967296]), s0)
   \<and> lib_calls s0 = []"
  by (simp add: Window_SetPosition_def Window_SetSize_def Window_SetCursorPosition_def
      Window_SetFramerateLimit_def rb_defs win0_def s0_def)

end
